theory Spec2Isabelle
  imports Complex_Main
begin

section \<open>JavaScript values and strings\<close>

text \<open>
  The server actions of the interview module handle values that come out of \<^verbatim>\<open>JSON.parse\<close>
  and are probed field by field. They are modelled by one datatype of JavaScript values.
  Numbers are rationals: every JSON number literal denotes one, and the rounding of the
  literal to a double is left out. A string is a list of 8-bit characters, one character
  standing for one UTF-16 code unit below 256.
\<close>

datatype jsval =
    JUndefined
  | JNull
  | JBool bool
  | JNum rat
  | JStr string
  | JArr "jsval list"
  | JObj "(string \<times> jsval) list"

datatype error =
    Error string
  | TypeError
  | RecordNotFound
  | UniqueConstraint

text \<open>
  An \<^verbatim>\<open>async\<close> function returns a promise. It resolves with a value, rejects with an
  error, or is still pending: the last case is a call of the text-generation service that
  does not settle.
\<close>

datatype 'a promise = Resolved 'a | Rejected error | Pending

text \<open>The three things \<^verbatim>\<open>model.generateContent\<close> can do.\<close>

datatype model_reply = Responds string | Throws | Hangs

text \<open>Truthiness, as used by \<^verbatim>\<open>!x\<close>, \<^verbatim>\<open>x || y\<close> and \<^verbatim>\<open>x && y\<close>.\<close>

fun truthy :: "jsval \<Rightarrow> bool" where
  "truthy JUndefined = False"
| "truthy JNull = False"
| "truthy (JBool b) = b"
| "truthy (JNum r) = (r \<noteq> 0)"
| "truthy (JStr s) = (s \<noteq> [])"
| "truthy (JArr xs) = True"
| "truthy (JObj kvs) = True"

text \<open>An optional string field: absent (\<^verbatim>\<open>undefined\<close> or \<^verbatim>\<open>null\<close>) and the empty string are falsy.\<close>

fun truthy_str :: "string option \<Rightarrow> bool" where
  "truthy_str None = False"
| "truthy_str (Some s) = (s \<noteq> [])"

text \<open>
  Reading a property \<^verbatim>\<open>v.k\<close>. On \<^verbatim>\<open>undefined\<close> and \<^verbatim>\<open>null\<close> it throws a TypeError. The keys
  the actions read (\<^verbatim>\<open>totalScore\<close>, \<^verbatim>\<open>categoryScores\<close>, \<^verbatim>\<open>strengths\<close>, \<^verbatim>\<open>areasForImprovement\<close>,
  \<^verbatim>\<open>finalAssessment\<close>, \<^verbatim>\<open>name\<close>, \<^verbatim>\<open>score\<close>, \<^verbatim>\<open>question\<close>, \<^verbatim>\<open>text\<close>) are not defined on the
  prototypes of arrays and primitives, so there the read gives \<^verbatim>\<open>undefined\<close>.
\<close>

fun get_prop :: "jsval \<Rightarrow> string \<Rightarrow> error + jsval" where
  "get_prop JUndefined k = Inl TypeError"
| "get_prop JNull k = Inl TypeError"
| "get_prop (JObj kvs) k = Inr (case map_of kvs k of None \<Rightarrow> JUndefined | Some v \<Rightarrow> v)"
| "get_prop v k = Inr JUndefined"

fun is_array :: "jsval \<Rightarrow> bool" where
  "is_array (JArr xs) = True"
| "is_array v = False"

fun is_object :: "jsval \<Rightarrow> bool" where
  "is_object (JObj kvs) = True"
| "is_object v = False"

text \<open>
  Converting a value to a string or to a number goes through its \<^verbatim>\<open>valueOf\<close> and \<^verbatim>\<open>toString\<close>
  methods. An object that came out of \<^verbatim>\<open>JSON.parse\<close> inherits both; an entry of its own called
  \<^verbatim>\<open>valueOf\<close> is no function and is skipped, the inherited \<^verbatim>\<open>valueOf\<close> returns the object itself,
  and an entry of its own called \<^verbatim>\<open>toString\<close> is no function either, after which nothing is
  left and a TypeError is thrown. An array is joined from its entries, \<^verbatim>\<open>null\<close> giving the empty
  string, so it throws when one of its entries does.
\<close>

fun to_primitive_throws :: "jsval \<Rightarrow> bool" where
  "to_primitive_throws (JObj kvs) = (map_of kvs ''toString'' \<noteq> None)"
| "to_primitive_throws (JArr xs) = list_ex to_primitive_throws xs"
| "to_primitive_throws v = False"

definition is_digit :: "char \<Rightarrow> bool" where
  "is_digit c = (48 \<le> (of_char c :: nat) \<and> (of_char c :: nat) \<le> 57)"

text \<open>The characters matched by \<^verbatim>\<open>\s\<close> and removed by \<^verbatim>\<open>trim\<close>, among the code units below 256.\<close>

definition is_space :: "char \<Rightarrow> bool" where
  "is_space c = ((of_char c :: nat) \<in> {9, 10, 11, 12, 13, 32, 160})"

text \<open>The characters of \<^verbatim>\<open>\w\<close>: letters, digits and the underscore.\<close>

definition is_word :: "char \<Rightarrow> bool" where
  "is_word c = (let n = (of_char c :: nat) in
     (48 \<le> n \<and> n \<le> 57) \<or> (65 \<le> n \<and> n \<le> 90) \<or> (97 \<le> n \<and> n \<le> 122) \<or> n = 95)"

definition trim :: "string \<Rightarrow> string" where
  "trim s = rev (dropWhile is_space (rev (dropWhile is_space s)))"

definition starts_with :: "string \<Rightarrow> string \<Rightarrow> bool" where
  "starts_with p s = (take (length p) s = p)"

text \<open>An optional literal of a regular expression, \<^verbatim>\<open>(?:p)?\<close>: skipped when it is there.\<close>

definition skip_opt :: "string \<Rightarrow> string \<Rightarrow> string" where
  "skip_opt p s = (if starts_with p s then drop (length p) s else s)"

definition newline :: string where
  "newline = [CHR 0x0A]"

definition backticks :: string where
  "backticks = [CHR 0x60, CHR 0x60, CHR 0x60]"

text \<open>
  \<^verbatim>\<open>text.replace(/```(?:json)?\n?/g, "")\<close>: every match, found from left to right in the
  original text, is deleted; the search goes on after the end of the match.
\<close>

function strip_fences :: "string \<Rightarrow> string" where
  "strip_fences [] = []"
| "strip_fences (c # cs) =
     (if starts_with backticks (c # cs)
      then strip_fences (skip_opt newline (skip_opt ''json'' (drop 3 (c # cs))))
      else c # strip_fences cs)"
  by pat_completeness auto
termination
proof (relation "measure length")
  show "wf (measure length)" by simp
next
  fix c :: char and cs :: string
  have shorter: "length (skip_opt p s) \<le> length s" for p s :: string
    by (simp add: skip_opt_def)
  have "length (skip_opt newline (skip_opt ''json'' (drop 3 (c # cs)))) \<le> length (drop 3 (c # cs))"
    using shorter le_trans by blast
  then show "(skip_opt newline (skip_opt ''json'' (drop 3 (c # cs))), c # cs) \<in> measure length"
    by simp
next
  fix c :: char and cs :: string
  show "(cs, c # cs) \<in> measure length" by simp
qed

declare strip_fences.simps [simp del]

text \<open>Joining with a separator, \<^verbatim>\<open>xs.join(sep)\<close>.\<close>

fun join :: "string \<Rightarrow> string list \<Rightarrow> string" where
  "join sep [] = []"
| "join sep [x] = x"
| "join sep (x # y # ys) = x @ sep @ join sep (y # ys)"

section \<open>Collaborators\<close>

text \<open>
  What one request sees of the outside world: the identity provider's answer, the replies of
  the text-generation service to the question prompt and to the feedback prompt, the
  built-in \<^verbatim>\<open>JSON.parse\<close> (\<open>None\<close> when it throws a SyntaxError), the number that a string, or
  an array that converts without throwing, stands for (\<open>None\<close> for NaN; a number too large
  for a double is left out), the clock, the identifier the store gives to a record it
  creates, and whether a write to the call-analytics table throws. The reply of the
  service is taken as it comes: it is not a function of the prompt.
\<close>

datatype analytics_call = CompleteUpsert | TranscriptUpsert | ModelErrorUpdate | RawOutputUpsert

record env =
  auth_userId :: "string option"
  questions_reply :: model_reply
  feedback_reply :: model_reply
  JSON_parse :: "string \<Rightarrow> jsval option"
  ToNumber_text :: "jsval \<Rightarrow> rat option"
  now :: nat
  fresh_id :: string
  analytics_throws :: "analytics_call \<Rightarrow> bool"

section \<open>The store\<close>

datatype status = SCHEDULED | IN_PROGRESS | COMPLETED | FAILED | CANCELLED

record user =
  user_id :: string
  user_industry :: "string option"

record session =
  sid :: string
  userId :: string
  sessionType :: string
  industry :: "string option"
  role :: string
  difficulty :: string
  duration :: nat
  status :: status
  questions :: jsval
  startedAt :: "nat option"
  endedAt :: "nat option"
  overallScore :: "int option"
  technicalScore :: "int option"
  communicationScore :: "int option"
  confidenceScore :: "int option"
  strengths :: "jsval list"
  weaknesses :: "jsval list"
  detailedFeedback :: jsval

datatype metadata = NoMetadata | MessageCount nat | ModelError | RawModelOutput string

record call_analytics =
  ca_userId :: string
  ca_sessionId :: string
  ca_transcript :: string
  ca_startedAt :: "nat option"
  ca_endedAt :: "nat option"
  ca_metadata :: metadata

text \<open>
  The three tables: users by the identity provider's id, sessions by id, call analytics by
  session id. The session table is reliable: \<^verbatim>\<open>update\<close> throws only when no record has the
  id, \<^verbatim>\<open>create\<close> only when the id is taken. The schema's validation of the written values is
  not part of the sources and is left out.
\<close>

record db =
  users :: "string \<rightharpoonup> user"
  sessions :: "string \<rightharpoonup> session"
  analytics :: "string \<rightharpoonup> call_analytics"

definition session_update :: "db \<Rightarrow> string \<Rightarrow> (session \<Rightarrow> session) \<Rightarrow> error + db" where
  "session_update d i f =
     (case sessions d i of
        None \<Rightarrow> Inl RecordNotFound
      | Some s \<Rightarrow> Inr (d\<lparr>sessions := (sessions d)(i \<mapsto> f s)\<rparr>))"

definition session_create :: "db \<Rightarrow> session \<Rightarrow> error + db" where
  "session_create d s =
     (case sessions d (sid s) of
        Some t \<Rightarrow> Inl UniqueConstraint
      | None \<Rightarrow> Inr (d\<lparr>sessions := (sessions d)(sid s \<mapsto> s)\<rparr>))"

text \<open>\<^verbatim>\<open>findFirst({ where: { id, userId } })\<close>.\<close>

definition session_findFirst :: "db \<Rightarrow> string \<Rightarrow> string \<Rightarrow> session option" where
  "session_findFirst d i u =
     (case sessions d i of
        None \<Rightarrow> None
      | Some s \<Rightarrow> if userId s = u then Some s else None)"

section \<open>Question generation and session creation\<close>

record sessionData =
  sd_role :: string
  sd_difficulty :: "string option"
  sd_techStack :: "string option"
  sd_sessionType :: "string option"
  sd_questionCount :: "nat option"
  sd_industry :: "string option"
  sd_duration :: "nat option"

text \<open>The literal list returned when generation fails, with the role put into its second entry.\<close>

definition fallback_questions :: "string \<Rightarrow> string list" where
  "fallback_questions r =
     [ ''Tell me about yourself and your background.'',
       ''What interests you most about working as a '' @ r @ ''?'',
       ''What are your greatest strengths?'',
       ''Describe a challenging project you worked on.'',
       ''How do you handle working under pressure?'',
       ''Where do you see yourself in 5 years?'',
       ''Why should we hire you for this position?'',
       ''Do you have any questions for us?'' ]"

text \<open>
  \<^verbatim>\<open>generateInterviewQuestions\<close>. The prompt is built from the session data and the user's
  skills; the reply does not depend on it in the model, so it is not built. Whatever
  \<^verbatim>\<open>JSON.parse\<close> returns is returned, array or not.
\<close>

definition generateInterviewQuestions :: "env \<Rightarrow> db \<Rightarrow> sessionData \<Rightarrow> jsval promise" where
  "generateInterviewQuestions e d sd =
     (if \<not> truthy_str (auth_userId e) then Rejected (Error ''Unauthorized'')
      else case users d (the (auth_userId e)) of
        None \<Rightarrow> Rejected (Error ''User not found'')
      | Some u \<Rightarrow>
          (case questions_reply e of
             Hangs \<Rightarrow> Pending
           | Throws \<Rightarrow> Resolved (JArr (map JStr (fallback_questions (sd_role sd))))
           | Responds text \<Rightarrow>
               (case JSON_parse e (trim (strip_fences text)) of
                  None \<Rightarrow> Resolved (JArr (map JStr (fallback_questions (sd_role sd))))
                | Some v \<Rightarrow> Resolved v)))"

text \<open>Decimal digits of a number, for \<^verbatim>\<open>`prepwise-${Date.now()}`\<close>.\<close>

fun decimal :: "nat \<Rightarrow> string" where
  "decimal n = (if n < 10 then [char_of (48 + n)] else decimal (n div 10) @ [char_of (48 + n mod 10)])"

declare decimal.simps [simp del]

definition or_str :: "string option \<Rightarrow> string \<Rightarrow> string" where
  "or_str x dflt = (if truthy_str x then the x else dflt)"

record created =
  cr_session :: session
  prepwiseInterviewId :: string

text \<open>
  \<^verbatim>\<open>createInterviewSession\<close>. The columns that the call does not set (timestamps, scores,
  feedback) start empty.
\<close>

definition new_session :: "env \<Rightarrow> user \<Rightarrow> sessionData \<Rightarrow> jsval \<Rightarrow> session" where
  "new_session e u sd qs =
     \<lparr> sid = fresh_id e,
       userId = user_id u,
       sessionType = or_str (sd_sessionType sd) ''mock'',
       industry = (if truthy_str (sd_industry sd) then sd_industry sd else user_industry u),
       role = sd_role sd,
       difficulty = or_str (sd_difficulty sd) ''intermediate'',
       duration = (case sd_duration sd of None \<Rightarrow> 30 | Some n \<Rightarrow> if n = 0 then 30 else n),
       status = SCHEDULED,
       questions = qs,
       startedAt = None,
       endedAt = None,
       overallScore = None,
       technicalScore = None,
       communicationScore = None,
       confidenceScore = None,
       strengths = [],
       weaknesses = [],
       detailedFeedback = JNull \<rparr>"

definition createInterviewSession :: "env \<Rightarrow> db \<Rightarrow> sessionData \<Rightarrow> db \<times> created promise" where
  "createInterviewSession e d sd =
     (if \<not> truthy_str (auth_userId e) then (d, Rejected (Error ''Unauthorized''))
      else case users d (the (auth_userId e)) of
        None \<Rightarrow> (d, Rejected (Error ''User not found''))
      | Some u \<Rightarrow>
          (case generateInterviewQuestions e d sd of
             Pending \<Rightarrow> (d, Pending)
           | generated \<Rightarrow>
               (let result =
                      (case generated of
                         Resolved questionsArray \<Rightarrow>
                           (if is_array questionsArray then questionsArray else JArr [],
                            ''prepwise-'' @ decimal (now e))
                       | _ \<Rightarrow>
                           (JArr (map JStr (fallback_questions (sd_role sd))),
                            ''prepwise-fallback-'' @ decimal (now e)));
                    questionsJson = (if is_array (fst result) then fst result else JArr []);
                    s = new_session e u sd questionsJson
                in case session_create d s of
                     Inl err \<Rightarrow> (d, Rejected err)
                   | Inr d' \<Rightarrow>
                       (d', Resolved \<lparr> cr_session = s, prepwiseInterviewId = snd result \<rparr>))))"

section \<open>Starting a session\<close>

text \<open>
  A stored question is used as it is when it is a string; otherwise its \<^verbatim>\<open>question\<close> field, its
  \<^verbatim>\<open>text\<close> field or the empty string is taken. Reading a field of \<^verbatim>\<open>null\<close> throws.
\<close>

definition question_text :: "jsval \<Rightarrow> error + jsval" where
  "question_text q =
     (case q of
        JStr s \<Rightarrow> Inr q
      | _ \<Rightarrow>
        (case get_prop q ''question'' of
           Inl err \<Rightarrow> Inl err
         | Inr a \<Rightarrow>
             if truthy a then Inr a
             else (case get_prop q ''text'' of
                     Inl err \<Rightarrow> Inl err
                   | Inr b \<Rightarrow> if truthy b then Inr b else Inr (JStr []))))"

fun map_err :: "('a \<Rightarrow> error + 'b) \<Rightarrow> 'a list \<Rightarrow> error + 'b list" where
  "map_err f [] = Inr []"
| "map_err f (x # xs) =
     (case f x of
        Inl err \<Rightarrow> Inl err
      | Inr y \<Rightarrow> (case map_err f xs of Inl err \<Rightarrow> Inl err | Inr ys \<Rightarrow> Inr (y # ys)))"

record started =
  st_session :: session
  st_questions :: "jsval list"

text \<open>
  The questions read out of the session, and the lines \<^verbatim>\<open>`- ${q}`\<close> made of them. All
  questions are read first. A line puts its question into a string, which throws for an
  object with a \<^verbatim>\<open>toString\<close> entry; the lines themselves are not modelled, only whether
  making them throws.
\<close>

definition start_questions :: "session \<Rightarrow> error + jsval list" where
  "start_questions s =
     (case (case questions s of JArr qs \<Rightarrow> map_err question_text qs | _ \<Rightarrow> Inr []) of
        Inl err \<Rightarrow> Inl err
      | Inr qs \<Rightarrow> if list_ex to_primitive_throws qs then Inl TypeError else Inr qs)"

text \<open>
  The body of the \<^verbatim>\<open>try\<close> of \<^verbatim>\<open>startInterviewWithQuestions\<close>. The rest of the assistant
  configuration is made of the session's role and difficulty, which are strings; it
  neither throws nor touches the store and is not modelled.
\<close>

definition start_body :: "env \<Rightarrow> db \<Rightarrow> string \<Rightarrow> session \<Rightarrow> db \<times> (error + started)" where
  "start_body e d sessionId s =
     (case start_questions s of
        Inl err \<Rightarrow> (d, Inl err)
      | Inr qs \<Rightarrow>
          (case session_update d sessionId (\<lambda>r. r\<lparr>status := IN_PROGRESS, startedAt := Some (now e)\<rparr>) of
             Inl err \<Rightarrow> (d, Inl err)
           | Inr d' \<Rightarrow>
               (d', Inr \<lparr> st_session = the (sessions d' sessionId), st_questions = qs \<rparr>)))"

text \<open>A store write whose failure is caught and only logged.\<close>

definition best_effort :: "db \<Rightarrow> error + db \<Rightarrow> db" where
  "best_effort d r = (case r of Inl err \<Rightarrow> d | Inr d' \<Rightarrow> d')"

definition startInterviewWithQuestions :: "env \<Rightarrow> db \<Rightarrow> string \<Rightarrow> db \<times> started promise" where
  "startInterviewWithQuestions e d sessionId =
     (if \<not> truthy_str (auth_userId e) then (d, Rejected (Error ''Unauthorized''))
      else case users d (the (auth_userId e)) of
        None \<Rightarrow> (d, Rejected (Error ''User not found''))
      | Some u \<Rightarrow>
          (case session_findFirst d sessionId (user_id u) of
             None \<Rightarrow> (d, Rejected (Error ''Interview session not found''))
           | Some s \<Rightarrow>
               (case start_body e d sessionId s of
                  (d', Inr r) \<Rightarrow> (d', Resolved r)
                | (d', Inl err) \<Rightarrow>
                    (best_effort d' (session_update d' sessionId (\<lambda>r. r\<lparr>status := FAILED\<rparr>)),
                     Rejected err))))"

section \<open>Feedback derivation\<close>

text \<open>
  A message of the call: \<^verbatim>\<open>null\<close>, a plain string, or an object of which the fields
  \<^verbatim>\<open>content\<close>, \<^verbatim>\<open>text\<close>, \<^verbatim>\<open>transcript\<close>, \<^verbatim>\<open>role\<close> and \<^verbatim>\<open>type\<close> are read, each a string or absent.
\<close>

record message_fields =
  m_content :: "string option"
  m_text :: "string option"
  m_transcript :: "string option"
  m_role :: "string option"
  m_type :: "string option"

datatype message = MNull | MString string | MObject message_fields

fun keep_message :: "message \<Rightarrow> bool" where
  "keep_message MNull = False"
| "keep_message (MString s) = (s \<noteq> [])"
| "keep_message (MObject f) =
     (truthy_str (m_content f) \<or> truthy_str (m_text f) \<or> truthy_str (m_transcript f))"

text \<open>The line of one message; \<^verbatim>\<open>null\<close> has been filtered out before.\<close>

fun render_message :: "message \<Rightarrow> string" where
  "render_message MNull = []"
| "render_message (MString s) = ''User: '' @ s"
| "render_message (MObject f) =
     (let content = (if truthy_str (m_content f) then the (m_content f)
                     else if truthy_str (m_text f) then the (m_text f)
                     else if truthy_str (m_transcript f) then the (m_transcript f)
                     else []);
          role = (if truthy_str (m_role f) then the (m_role f)
                  else if m_type f = Some ''transcript'' then ''User''
                  else ''System'')
      in role @ '': '' @ content)"

text \<open>The message log is preferred to the raw transcript whenever it has an entry.\<close>

definition format_transcript :: "string \<Rightarrow> message list \<Rightarrow> string" where
  "format_transcript transcript messages =
     (if messages \<noteq> [] then join newline (map render_message (filter keep_message messages))
      else if transcript \<noteq> [] then transcript
      else [])"

record feedback_doc =
  totalScore :: jsval
  categoryScores :: "jsval list"
  fb_strengths :: "jsval list"
  areasForImprovement :: "jsval list"
  finalAssessment :: jsval

definition category :: "string \<Rightarrow> jsval \<Rightarrow> string \<Rightarrow> jsval" where
  "category n s c = JObj [(''name'', JStr n), (''score'', s), (''comment'', JStr c)]"

text \<open>The five entries that every literal document of the source lists, in its order.\<close>

definition five_categories :: "jsval \<Rightarrow> string \<Rightarrow> jsval list" where
  "five_categories s c =
     [ category ''Communication Skills'' s c,
       category ''Technical Knowledge'' s c,
       category ''Problem Solving'' s c,
       category ''Cultural Fit'' s c,
       category ''Confidence and Clarity'' s c ]"

definition no_transcript_feedback :: feedback_doc where
  "no_transcript_feedback =
     \<lparr> totalScore = JNum 50,
       categoryScores = five_categories (JNum 50) ''No transcript provided'',
       fb_strengths = [],
       areasForImprovement = [JStr ''Transcript not available''],
       finalAssessment = JStr (''No transcript was provided for analysis. Please provide the ''
         @ ''interview transcript to assess the candidate'' @ [CHR 0x27] @ ''s performance.'') \<rparr>"

definition model_error_feedback :: feedback_doc where
  "model_error_feedback =
     \<lparr> totalScore = JNum 60,
       categoryScores = five_categories (JNum 60) ''Could not generate detailed feedback due to model error'',
       fb_strengths = [],
       areasForImprovement = [JStr ''Feedback generation failed''],
       finalAssessment = JStr ''Feedback generation encountered an error. Please retry.'' \<rparr>"

text \<open>
  \<^verbatim>\<open>categoryScores.find(c => c.name === n)\<close>: the first entry whose name is the string,
  \<^verbatim>\<open>undefined\<close> when there is none. An entry that is \<^verbatim>\<open>null\<close> throws when its name is read.
\<close>

fun find_category :: "jsval list \<Rightarrow> string \<Rightarrow> error + jsval" where
  "find_category [] n = Inr JUndefined"
| "find_category (c # cs) n =
     (case get_prop c ''name'' of
        Inl err \<Rightarrow> Inl err
      | Inr v \<Rightarrow> if v = JStr n then Inr c else find_category cs n)"

text \<open>\<^verbatim>\<open>categoryScores.find(...)?.score\<close>.\<close>

definition category_score :: "jsval list \<Rightarrow> string \<Rightarrow> error + jsval" where
  "category_score cs n =
     (case find_category cs n of
        Inl err \<Rightarrow> Inl err
      | Inr c \<Rightarrow> (case c of JUndefined \<Rightarrow> Inr JUndefined | JNull \<Rightarrow> Inr JUndefined | _ \<Rightarrow> get_prop c ''score''))"

text \<open>
  \<^verbatim>\<open>ToNumber\<close>; \<open>None\<close> is NaN. An object that converts without throwing gives the string
  \<^verbatim>\<open>[object Object]\<close>, which is no number.
\<close>

definition ToNumber :: "env \<Rightarrow> jsval \<Rightarrow> error + rat option" where
  "ToNumber e v =
     (case v of
        JUndefined \<Rightarrow> Inr None
      | JNull \<Rightarrow> Inr (Some 0)
      | JBool b \<Rightarrow> Inr (Some (if b then 1 else 0))
      | JNum r \<Rightarrow> Inr (Some r)
      | JStr t \<Rightarrow> Inr (ToNumber_text e v)
      | JArr xs \<Rightarrow> if to_primitive_throws v then Inl TypeError else Inr (ToNumber_text e v)
      | JObj kvs \<Rightarrow> if to_primitive_throws v then Inl TypeError else Inr None)"

text \<open>\<^verbatim>\<open>Math.round\<close> rounds to the nearest integer, a half upwards.\<close>

definition Math_round :: "env \<Rightarrow> jsval \<Rightarrow> error + int option" where
  "Math_round e v =
     (case ToNumber e v of
        Inl err \<Rightarrow> Inl err
      | Inr None \<Rightarrow> Inr None
      | Inr (Some r) \<Rightarrow> Inr (Some \<lfloor>r + 1 / 2\<rfloor>))"

text \<open>\<^verbatim>\<open>x || dflt\<close> on a number: NaN and 0 are falsy.\<close>

definition or_int :: "int option \<Rightarrow> int \<Rightarrow> int" where
  "or_int x dflt = (case x of None \<Rightarrow> dflt | Some n \<Rightarrow> if n = 0 then dflt else n)"

text \<open>\<^verbatim>\<open>Math.round(v) || dflt\<close>.\<close>

definition round_or :: "env \<Rightarrow> jsval \<Rightarrow> int \<Rightarrow> error + int" where
  "round_or e v dflt =
     (case Math_round e v of
        Inl err \<Rightarrow> Inl err
      | Inr x \<Rightarrow> Inr (or_int x dflt))"

text \<open>\<^verbatim>\<open>s.indexOf(c)\<close> and \<^verbatim>\<open>s.lastIndexOf(c)\<close>; \<open>None\<close> is \<open>-1\<close>.\<close>

fun indexOf :: "string \<Rightarrow> char \<Rightarrow> nat option" where
  "indexOf [] c = None"
| "indexOf (x # xs) c =
     (if x = c then Some 0 else (case indexOf xs c of None \<Rightarrow> None | Some i \<Rightarrow> Some (Suc i)))"

fun lastIndexOf :: "string \<Rightarrow> char \<Rightarrow> nat option" where
  "lastIndexOf [] c = None"
| "lastIndexOf (x # xs) c =
     (case lastIndexOf xs c of
        Some i \<Rightarrow> Some (Suc i)
      | None \<Rightarrow> if x = c then Some 0 else None)"

text \<open>\<^verbatim>\<open>s.substring(i, j)\<close> for \<open>i \<le> j\<close>.\<close>

definition substring :: "string \<Rightarrow> nat \<Rightarrow> nat \<Rightarrow> string" where
  "substring s i j = take (j - i) (drop i s)"

text \<open>The reply without its code fences, cut down to the span from the first \<^verbatim>\<open>{\<close> to the last \<^verbatim>\<open>}\<close>.\<close>

definition clean_response :: "string \<Rightarrow> string" where
  "clean_response modelResponseText =
     (let cleanedText = trim (strip_fences (trim modelResponseText))
      in case (indexOf cleanedText (CHR ''{''), lastIndexOf cleanedText (CHR ''}'')) of
           (Some jsonStart, Some jsonEnd) \<Rightarrow>
             if jsonEnd > jsonStart then substring cleanedText jsonStart (jsonEnd + 1)
             else cleanedText
         | _ \<Rightarrow> cleanedText)"

text \<open>\<^verbatim>\<open>Number(ds)\<close> of a string of decimal digits.\<close>

definition digits_value :: "string \<Rightarrow> nat" where
  "digits_value ds = foldl (\<lambda>a c. 10 * a + (of_char c - 48)) 0 ds"

text \<open>
  \<^verbatim>\<open>/(\d{1,3})\s*\/\s*100/\<close> tried at the start of a string: the digit group takes three, two or
  one digits, in that order of preference.
\<close>

definition slash100_with :: "nat \<Rightarrow> string \<Rightarrow> nat option" where
  "slash100_with k s =
     (if k \<le> length (takeWhile is_digit s)
      then (case dropWhile is_space (drop k s) of
              [] \<Rightarrow> None
            | c # r \<Rightarrow>
                if c = CHR ''/'' \<and> starts_with ''100'' (dropWhile is_space r)
                then Some (digits_value (take k s)) else None)
      else None)"

definition first_of :: "'a option list \<Rightarrow> 'a option" where
  "first_of xs = (case filter (\<lambda>x. x \<noteq> None) xs of [] \<Rightarrow> None | x # _ \<Rightarrow> x)"

definition slash100_at :: "string \<Rightarrow> nat option" where
  "slash100_at s = first_of [slash100_with 3 s, slash100_with 2 s, slash100_with 1 s]"

text \<open>The leftmost match of the expression in the text.\<close>

fun match_slash100 :: "string \<Rightarrow> nat option" where
  "match_slash100 [] = None"
| "match_slash100 (c # cs) =
     (case slash100_at (c # cs) of Some n \<Rightarrow> Some n | None \<Rightarrow> match_slash100 cs)"

text \<open>
  \<^verbatim>\<open>/(\b\d{1,3}\b)/\<close> tried at a position, given whether the character before it is a word
  character: a word boundary is needed before the first digit and after the last.
\<close>

definition bare_with :: "nat \<Rightarrow> string \<Rightarrow> nat option" where
  "bare_with k s =
     (if k \<le> length (takeWhile is_digit s)
      then (case drop k s of
              [] \<Rightarrow> Some (digits_value (take k s))
            | c # r \<Rightarrow> if is_word c then None else Some (digits_value (take k s)))
      else None)"

definition bare_at :: "bool \<Rightarrow> string \<Rightarrow> nat option" where
  "bare_at prev_word s =
     (if prev_word then None else first_of [bare_with 3 s, bare_with 2 s, bare_with 1 s])"

fun match_bare_from :: "bool \<Rightarrow> string \<Rightarrow> nat option" where
  "match_bare_from prev_word [] = None"
| "match_bare_from prev_word (c # cs) =
     (case bare_at prev_word (c # cs) of
        Some n \<Rightarrow> Some n
      | None \<Rightarrow> match_bare_from (is_word c) cs)"

definition match_bare :: "string \<Rightarrow> nat option" where
  "match_bare s = match_bare_from False s"

text \<open>The number guessed from an unparseable reply: \<^verbatim>\<open>NN/100\<close> first, a bare number otherwise.\<close>

definition total_guess :: "string \<Rightarrow> nat option" where
  "total_guess cleanedText =
     (case match_slash100 cleanedText of
        Some n \<Rightarrow> Some n
      | None \<Rightarrow> match_bare cleanedText)"

text \<open>The document put together in the \<^verbatim>\<open>catch\<close> of the parse.\<close>

definition parse_fallback :: "string \<Rightarrow> jsval" where
  "parse_fallback cleanedText =
     JObj [ (''totalScore'',
               (case total_guess cleanedText of
                  Some n \<Rightarrow> JNum (of_nat (max 0 (min 100 n)))
                | None \<Rightarrow> JNum 75)),
            (''categoryScores'', JArr (five_categories (JNum 75) ''Auto-generated fallback'')),
            (''strengths'', JArr []),
            (''areasForImprovement'', JArr [JStr ''Could not parse model JSON; using fallback values'']),
            (''finalAssessment'', JStr (substring cleanedText 0 1000)) ]"

definition parse_feedback :: "env \<Rightarrow> string \<Rightarrow> jsval" where
  "parse_feedback e cleanedText =
     (case JSON_parse e cleanedText of
        Some v \<Rightarrow> v
      | None \<Rightarrow> parse_fallback cleanedText)"

definition array_or_empty :: "jsval \<Rightarrow> jsval list" where
  "array_or_empty v = (case v of JArr xs \<Rightarrow> xs | _ \<Rightarrow> [])"

text \<open>
  The block under \<^verbatim>\<open>// Ensure structure\<close>. On \<^verbatim>\<open>null\<close> the first read throws. On a boolean, a
  number or a string the read of \<^verbatim>\<open>totalScore\<close> gives \<^verbatim>\<open>undefined\<close> and the assignment that
  follows throws, the file being a module and so in strict mode. On an array or an object
  the four fields are read or defaulted. The record holds these four fields and
  \<^verbatim>\<open>finalAssessment\<close>; the other keys of the parsed value stay as they are and are not
  modelled.
\<close>

definition ensure_structure :: "jsval \<Rightarrow> error + feedback_doc" where
  "ensure_structure feedback =
     (if is_array feedback \<or> is_object feedback then
        (let prop = (\<lambda>k. case get_prop feedback k of Inr v \<Rightarrow> v | Inl err \<Rightarrow> JUndefined);
             total = (if truthy (prop ''totalScore'') then prop ''totalScore'' else JNum 75);
             cats = (case prop ''categoryScores'' of
                       JArr (c # cs) \<Rightarrow> c # cs
                     | _ \<Rightarrow> five_categories total ''Auto'')
         in Inr \<lparr> totalScore = total,
                  categoryScores = cats,
                  fb_strengths = array_or_empty (prop ''strengths''),
                  areasForImprovement = array_or_empty (prop ''areasForImprovement''),
                  finalAssessment = prop ''finalAssessment'' \<rparr>)
      else Inl TypeError)"

text \<open>\<^verbatim>\<open>x || dflt\<close> on a string.\<close>

definition or_text :: "string \<Rightarrow> string \<Rightarrow> string" where
  "or_text x dflt = (if x \<noteq> [] then x else dflt)"

definition analytics_upsert ::
    "db \<Rightarrow> string \<Rightarrow> (call_analytics \<Rightarrow> call_analytics) \<Rightarrow> call_analytics \<Rightarrow> db" where
  "analytics_upsert d i upd cre =
     d\<lparr>analytics := (analytics d)(i \<mapsto> (case analytics d i of None \<Rightarrow> cre | Some a \<Rightarrow> upd a))\<rparr>"

definition analytics_updateMany :: "db \<Rightarrow> string \<Rightarrow> (call_analytics \<Rightarrow> call_analytics) \<Rightarrow> db" where
  "analytics_updateMany d i upd =
     (case analytics d i of
        None \<Rightarrow> d
      | Some a \<Rightarrow> d\<lparr>analytics := (analytics d)(i \<mapsto> upd a)\<rparr>)"

text \<open>A write to the analytics table inside its own \<^verbatim>\<open>try\<close>: when it throws, nothing is written.\<close>

definition try_analytics :: "env \<Rightarrow> analytics_call \<Rightarrow> db \<Rightarrow> db \<Rightarrow> db" where
  "try_analytics e c d d' = (if analytics_throws e c then d else d')"

text \<open>
  The three writes of a literal document. The lookups by name in a literal document find
  their entry, so the scores written are the document's own 50 and 60.
\<close>

definition no_transcript_update :: "env \<Rightarrow> session \<Rightarrow> session" where
  "no_transcript_update e r =
     r\<lparr> overallScore := Some 50,
        technicalScore := Some 50,
        communicationScore := Some 50,
        confidenceScore := Some 50,
        strengths := fb_strengths no_transcript_feedback,
        weaknesses := areasForImprovement no_transcript_feedback,
        detailedFeedback := finalAssessment no_transcript_feedback,
        status := COMPLETED,
        endedAt := Some (now e) \<rparr>"

definition model_error_update :: "env \<Rightarrow> session \<Rightarrow> session" where
  "model_error_update e r =
     r\<lparr> overallScore := Some 60,
        technicalScore := Some 60,
        communicationScore := Some 60,
        confidenceScore := Some 60,
        strengths := fb_strengths model_error_feedback,
        weaknesses := areasForImprovement model_error_feedback,
        detailedFeedback := finalAssessment model_error_feedback,
        status := COMPLETED,
        endedAt := Some (now e) \<rparr>"

text \<open>The write in the outer \<^verbatim>\<open>catch\<close> of the derivation.\<close>

definition fatal_update :: "env \<Rightarrow> session \<Rightarrow> session" where
  "fatal_update e r =
     r\<lparr> status := COMPLETED,
        endedAt := Some (now e),
        detailedFeedback := JStr ''Interview completed. Feedback generation encountered an issue.'',
        overallScore := Some 50,
        strengths := [],
        weaknesses := [JStr ''Feedback generation failed''] \<rparr>"

text \<open>\<^verbatim>\<open>Math.round(categoryScores.find(c => c.name === n)?.score) || 50\<close>.\<close>

definition rounded_score :: "env \<Rightarrow> jsval list \<Rightarrow> string \<Rightarrow> error + int" where
  "rounded_score e cs n =
     (case category_score cs n of
        Inl err \<Rightarrow> Inl err
      | Inr v \<Rightarrow> round_or e v 50)"

text \<open>
  \<^verbatim>\<open>updateData\<close>, whose fields are evaluated in the order written: a rounding or a lookup
  that throws stops the rest.
\<close>

definition updateData :: "env \<Rightarrow> string \<Rightarrow> feedback_doc \<Rightarrow> error + (session \<Rightarrow> session)" where
  "updateData e cleanedText feedback =
     (case round_or e (totalScore feedback) 75 of
        Inl err \<Rightarrow> Inl err
      | Inr overall \<Rightarrow>
     (case rounded_score e (categoryScores feedback) ''Technical Knowledge'' of
        Inl err \<Rightarrow> Inl err
      | Inr technical \<Rightarrow>
     (case rounded_score e (categoryScores feedback) ''Communication Skills'' of
        Inl err \<Rightarrow> Inl err
      | Inr communication \<Rightarrow>
     (case rounded_score e (categoryScores feedback) ''Confidence and Clarity'' of
        Inl err \<Rightarrow> Inl err
      | Inr confidence \<Rightarrow>
          Inr (\<lambda>r. r\<lparr> overallScore := Some overall,
                      technicalScore := Some technical,
                      communicationScore := Some communication,
                      confidenceScore := Some confidence,
                      strengths := fb_strengths feedback,
                      weaknesses := areasForImprovement feedback,
                      detailedFeedback :=
                        (if truthy (finalAssessment feedback) then finalAssessment feedback
                         else JStr (or_text (substring cleanedText 0 200) ''Feedback generated'')),
                      status := COMPLETED,
                      endedAt := Some (now e) \<rparr>)))))"

text \<open>The derivation from the reply of the text-generation service on.\<close>

definition score_response ::
    "env \<Rightarrow> db \<Rightarrow> string \<Rightarrow> session \<Rightarrow> string \<Rightarrow> string \<Rightarrow> db \<times> feedback_doc option promise" where
  "score_response e d sessionId session formattedTranscript modelResponseText =
     (let cleanedText = clean_response modelResponseText
      in case ensure_structure (parse_feedback e cleanedText) of
           Inl err \<Rightarrow> (d, Rejected err)
         | Inr feedback \<Rightarrow>
             (case updateData e cleanedText feedback of
                Inl err \<Rightarrow> (d, Rejected err)
              | Inr upd \<Rightarrow>
                  (case session_update d sessionId upd of
                     Inl err \<Rightarrow> (d, Rejected err)
                   | Inr d' \<Rightarrow>
                       (try_analytics e RawOutputUpsert d'
                          (analytics_upsert d' sessionId
                             (\<lambda>a. a\<lparr>ca_metadata := RawModelOutput (substring modelResponseText 0 5000)\<rparr>)
                             \<lparr> ca_userId = userId session,
                               ca_sessionId = sessionId,
                               ca_transcript = formattedTranscript,
                               ca_startedAt = None,
                               ca_endedAt = Some (now e),
                               ca_metadata = RawModelOutput (substring modelResponseText 0 5000) \<rparr>),
                        Resolved (Some feedback)))))"

text \<open>The write of the formatted transcript, before anything is scored.\<close>

definition transcript_analytics :: "env \<Rightarrow> db \<Rightarrow> string \<Rightarrow> session \<Rightarrow> string \<Rightarrow> db" where
  "transcript_analytics e d sessionId session formattedTranscript =
     try_analytics e TranscriptUpsert d
       (analytics_upsert d sessionId
          (\<lambda>a. a\<lparr> ca_transcript := or_text formattedTranscript ''No transcript'',
                  ca_endedAt := Some (now e) \<rparr>)
          \<lparr> ca_userId = userId session,
            ca_sessionId = sessionId,
            ca_transcript = or_text formattedTranscript ''No transcript'',
            ca_startedAt = None,
            ca_endedAt = Some (now e),
            ca_metadata = NoMetadata \<rparr>)"

text \<open>
  The body of the \<^verbatim>\<open>try\<close> of \<^verbatim>\<open>generateFeedbackFromTranscript\<close>; \<open>Rejected\<close> is an exception
  thrown inside it, \<open>Pending\<close> a call of the service that does not settle.
\<close>

definition feedback_body ::
    "env \<Rightarrow> db \<Rightarrow> string \<Rightarrow> string \<Rightarrow> message list \<Rightarrow> db \<times> feedback_doc option promise" where
  "feedback_body e d sessionId transcript messages =
     (case sessions d sessionId of
        None \<Rightarrow> (d, Resolved None)
      | Some session \<Rightarrow>
          (let formattedTranscript = format_transcript transcript messages;
               d1 = transcript_analytics e d sessionId session formattedTranscript
           in if formattedTranscript = [] \<or> length (trim formattedTranscript) < 10 then
                (case session_update d1 sessionId (no_transcript_update e) of
                   Inl err \<Rightarrow> (d1, Rejected err)
                 | Inr d2 \<Rightarrow> (d2, Resolved (Some no_transcript_feedback)))
              else
                (case feedback_reply e of
                   Hangs \<Rightarrow> (d1, Pending)
                 | Throws \<Rightarrow>
                     (let d2 = try_analytics e ModelErrorUpdate d1
                                 (analytics_updateMany d1 sessionId (\<lambda>a. a\<lparr>ca_metadata := ModelError\<rparr>))
                      in case session_update d2 sessionId (model_error_update e) of
                           Inl err \<Rightarrow> (d2, Rejected err)
                         | Inr d3 \<Rightarrow> (d3, Resolved (Some model_error_feedback)))
                 | Responds modelResponseText \<Rightarrow>
                     score_response e d1 sessionId session formattedTranscript modelResponseText)))"

text \<open>
  \<^verbatim>\<open>generateFeedbackFromTranscript\<close>: whatever is thrown inside is caught, the session is
  written once more on a best-effort basis, and \<^verbatim>\<open>null\<close> is returned.
\<close>

definition generateFeedbackFromTranscript ::
    "env \<Rightarrow> db \<Rightarrow> string \<Rightarrow> string \<Rightarrow> message list \<Rightarrow> db \<times> feedback_doc option promise" where
  "generateFeedbackFromTranscript e d sessionId transcript messages =
     (case feedback_body e d sessionId transcript messages of
        (d', Rejected err) \<Rightarrow>
          (best_effort d' (session_update d' sessionId (fatal_update e)), Resolved None)
      | (d', p) \<Rightarrow> (d', p))"

section \<open>Completing a session\<close>

record completed =
  co_session :: "session option"
  co_feedback :: "feedback_doc option"

text \<open>The write made when the derivation rejects or loses the race against the 30 second timer.\<close>

definition timeout_update :: "env \<Rightarrow> session \<Rightarrow> session" where
  "timeout_update e r =
     r\<lparr> status := COMPLETED,
        endedAt := Some (now e),
        detailedFeedback :=
          JStr ''Interview completed successfully. Feedback generation encountered an issue.'',
        overallScore := Some 50 \<rparr>"

definition failed_update :: "env \<Rightarrow> session \<Rightarrow> session" where
  "failed_update e r =
     r\<lparr> status := FAILED,
        endedAt := Some (now e),
        detailedFeedback := JStr ''Interview encountered an error during completion.'' \<rparr>"

text \<open>The first write of \<^verbatim>\<open>handleInterviewComplete\<close>: the transcript as it was handed in.\<close>

definition completion_analytics ::
    "env \<Rightarrow> db \<Rightarrow> string \<Rightarrow> session \<Rightarrow> string \<Rightarrow> message list \<Rightarrow> db" where
  "completion_analytics e d sessionId session transcript messages =
     try_analytics e CompleteUpsert d
       (analytics_upsert d sessionId
          (\<lambda>a. a\<lparr> ca_transcript := or_text transcript ''No transcript available'',
                  ca_endedAt := Some (now e),
                  ca_metadata := MessageCount (length messages) \<rparr>)
          \<lparr> ca_userId = userId session,
            ca_sessionId = sessionId,
            ca_transcript = or_text transcript ''No transcript available'',
            ca_startedAt = startedAt session,
            ca_endedAt = Some (now e),
            ca_metadata = MessageCount (length messages) \<rparr>)"

text \<open>
  \<^verbatim>\<open>Promise.race\<close> of the derivation against the 30 second timer, with the \<^verbatim>\<open>catch\<close> around it.
  A derivation that has resolved gives its document. A pending one loses the race, a
  rejected one throws: in both cases the session is written on a best-effort basis and the
  feedback stays \<^verbatim>\<open>null\<close>. What a pending derivation writes after the action has returned is
  outside this model.
\<close>

definition race_with_timeout ::
    "env \<Rightarrow> string \<Rightarrow> db \<times> feedback_doc option promise \<Rightarrow> db \<times> feedback_doc option" where
  "race_with_timeout e sessionId derived =
     (case snd derived of
        Resolved feedback \<Rightarrow> (fst derived, feedback)
      | _ \<Rightarrow>
          (best_effort (fst derived) (session_update (fst derived) sessionId (timeout_update e)),
           None))"

text \<open>The body of the \<^verbatim>\<open>try\<close> of \<^verbatim>\<open>handleInterviewComplete\<close>. No identity is asked for.\<close>

definition complete_body ::
    "env \<Rightarrow> db \<Rightarrow> string \<Rightarrow> string \<Rightarrow> message list \<Rightarrow> db \<times> (error + completed)" where
  "complete_body e d sessionId transcript messages =
     (case sessions d sessionId of
        None \<Rightarrow> (d, Inl (Error ''Session not found''))
      | Some session \<Rightarrow>
          (let d1 = completion_analytics e d sessionId session transcript messages;
               settled = race_with_timeout e sessionId
                           (generateFeedbackFromTranscript e d1 sessionId transcript messages)
           in (fst settled,
               Inr \<lparr> co_session = sessions (fst settled) sessionId,
                     co_feedback = snd settled \<rparr>)))"

definition handleInterviewComplete ::
    "env \<Rightarrow> db \<Rightarrow> string \<Rightarrow> string \<Rightarrow> message list \<Rightarrow> db \<times> completed promise" where
  "handleInterviewComplete e d sessionId transcript messages =
     (case complete_body e d sessionId transcript messages of
        (d', Inr r) \<Rightarrow> (d', Resolved r)
      | (d', Inl err) \<Rightarrow>
          (best_effort d' (session_update d' sessionId (failed_update e)), Rejected err))"

section \<open>A small world for examples\<close>

text \<open>
  One user, one session of that user that is in progress, and the replies of the
  text-generation service used in the examples, each with the value \<^verbatim>\<open>JSON.parse\<close> gives for it.
\<close>

definition sample_user :: user where
  "sample_user = \<lparr> user_id = ''u1'', user_industry = Some ''Software'' \<rparr>"

definition sample_session :: session where
  "sample_session =
     \<lparr> sid = ''s1'',
       userId = ''u1'',
       sessionType = ''mock'',
       industry = Some ''Software'',
       role = ''Backend Engineer'',
       difficulty = ''intermediate'',
       duration = 30,
       status = IN_PROGRESS,
       questions = JArr [JStr ''Tell me about yourself and your background.''],
       startedAt = Some 900,
       endedAt = None,
       overallScore = None,
       technicalScore = None,
       communicationScore = None,
       confidenceScore = None,
       strengths = [],
       weaknesses = [],
       detailedFeedback = JNull \<rparr>"

definition sample_db :: db where
  "sample_db =
     \<lparr> users = [''clerk_1'' \<mapsto> sample_user],
       sessions = [''s1'' \<mapsto> sample_session],
       analytics = Map.empty \<rparr>"

definition sample_transcript :: string where
  "sample_transcript = ''Interviewer: Tell me about yourself. Candidate: I build web services.''"

text \<open>A reply in the requested shape whose score for Technical Knowledge is 0.\<close>

definition zero_technical_reply :: string where
  "zero_technical_reply =
     ''{\"totalScore\":85,\"categoryScores\":[''
     @ ''{\"name\":\"Communication Skills\",\"score\":80},''
     @ ''{\"name\":\"Technical Knowledge\",\"score\":0},''
     @ ''{\"name\":\"Problem Solving\",\"score\":70},''
     @ ''{\"name\":\"Cultural Fit\",\"score\":90},''
     @ ''{\"name\":\"Confidence and Clarity\",\"score\":75}],''
     @ ''\"finalAssessment\":\"Weak on technical depth.\"}''"

definition zero_technical_categories :: "jsval list" where
  "zero_technical_categories =
     [ JObj [(''name'', JStr ''Communication Skills''), (''score'', JNum 80)],
       JObj [(''name'', JStr ''Technical Knowledge''), (''score'', JNum 0)],
       JObj [(''name'', JStr ''Problem Solving''), (''score'', JNum 70)],
       JObj [(''name'', JStr ''Cultural Fit''), (''score'', JNum 90)],
       JObj [(''name'', JStr ''Confidence and Clarity''), (''score'', JNum 75)] ]"

definition zero_technical_doc :: jsval where
  "zero_technical_doc =
     JObj [ (''totalScore'', JNum 85),
            (''categoryScores'', JArr zero_technical_categories),
            (''finalAssessment'', JStr ''Weak on technical depth.'') ]"

text \<open>A reply whose total and whose three persisted category scores are all 0.\<close>

definition all_zero_reply :: string where
  "all_zero_reply =
     ''{\"totalScore\":0,\"categoryScores\":[''
     @ ''{\"name\":\"Communication Skills\",\"score\":0},''
     @ ''{\"name\":\"Technical Knowledge\",\"score\":0},''
     @ ''{\"name\":\"Confidence and Clarity\",\"score\":0}]}''"

definition all_zero_categories :: "jsval list" where
  "all_zero_categories =
     [ JObj [(''name'', JStr ''Communication Skills''), (''score'', JNum 0)],
       JObj [(''name'', JStr ''Technical Knowledge''), (''score'', JNum 0)],
       JObj [(''name'', JStr ''Confidence and Clarity''), (''score'', JNum 0)] ]"

definition all_zero_fields :: "(string \<times> jsval) list" where
  "all_zero_fields =
     [ (''totalScore'', JNum 0),
       (''categoryScores'', JArr all_zero_categories) ]"

text \<open>A reply whose total is 0 and whose only category entry is \<^verbatim>\<open>null\<close>.\<close>

definition null_entry_reply :: string where
  "null_entry_reply = ''{\"totalScore\":0,\"categoryScores\":[null]}''"

definition null_entry_doc :: jsval where
  "null_entry_doc = JObj [(''totalScore'', JNum 0), (''categoryScores'', JArr [JNull])]"

text \<open>A reply whose total is 0 and in which one score is an object that cannot be converted.\<close>

definition unconvertible_reply :: string where
  "unconvertible_reply =
     ''{\"totalScore\":0,\"categoryScores\":[''
     @ ''{\"name\":\"Technical Knowledge\",\"score\":0},''
     @ ''{\"name\":\"Communication Skills\",\"score\":{\"valueOf\":1,\"toString\":1}}]}''"

definition unconvertible_categories :: "jsval list" where
  "unconvertible_categories =
     [ JObj [(''name'', JStr ''Technical Knowledge''), (''score'', JNum 0)],
       JObj [(''name'', JStr ''Communication Skills''),
             (''score'', JObj [(''valueOf'', JNum 1), (''toString'', JNum 1)])] ]"

definition unconvertible_doc :: jsval where
  "unconvertible_doc =
     JObj [ (''totalScore'', JNum 0),
            (''categoryScores'', JArr unconvertible_categories) ]"

text \<open>
  \<^verbatim>\<open>JSON.parse\<close> on the texts of the examples: the four documents above, the empty object, the
  empty array, \<^verbatim>\<open>null\<close>, and an array of one question. The examples apply it to no other text
  than these and one sentence of prose, on which it throws. No example converts a string
  or an array to a number.
\<close>

definition JSON_parse_sample :: "string \<Rightarrow> jsval option" where
  "JSON_parse_sample =
     map_of [ (zero_technical_reply, zero_technical_doc),
              (all_zero_reply, JObj all_zero_fields),
              (null_entry_reply, null_entry_doc),
              (unconvertible_reply, unconvertible_doc),
              (''{}'', JObj []),
              (''[]'', JArr []),
              (''null'', JNull),
              (''[\"What is a/b testing?\"]'', JArr [JStr ''What is a/b testing?'']) ]"

definition sample_env :: env where
  "sample_env =
     \<lparr> auth_userId = Some ''clerk_1'',
       questions_reply = Throws,
       feedback_reply = Throws,
       JSON_parse = JSON_parse_sample,
       ToNumber_text = (\<lambda>v. None),
       now = 1000,
       fresh_id = ''s2'',
       analytics_throws = (\<lambda>c. False) \<rparr>"

definition sample_data :: sessionData where
  "sample_data =
     \<lparr> sd_role = ''Backend Engineer'',
       sd_difficulty = None,
       sd_techStack = None,
       sd_sessionType = None,
       sd_questionCount = None,
       sd_industry = None,
       sd_duration = None \<rparr>"

text \<open>
  A second user, and a store with three sessions of the first user: one COMPLETED, one
  SCHEDULED, and one SCHEDULED whose stored question is an object with a field \<^verbatim>\<open>question\<close>
  that cannot be put into a string.
\<close>

definition other_user :: user where
  "other_user = \<lparr> user_id = ''u2'', user_industry = None \<rparr>"

definition finished_session :: session where
  "finished_session = sample_session\<lparr>status := COMPLETED\<rparr>"

definition second_session :: session where
  "second_session = sample_session\<lparr>sid := ''s3'', status := SCHEDULED\<rparr>"

definition unreadable_session :: session where
  "unreadable_session =
     sample_session\<lparr> sid := ''s4'', status := SCHEDULED,
                     questions := JArr [JObj [(''question'', JObj [(''toString'', JNum 1)])]] \<rparr>"

definition busy_db :: db where
  "busy_db =
     \<lparr> users = [''clerk_1'' \<mapsto> sample_user, ''clerk_2'' \<mapsto> other_user],
       sessions = [''s1'' \<mapsto> finished_session, ''s3'' \<mapsto> second_session,
                   ''s4'' \<mapsto> unreadable_session],
       analytics = Map.empty \<rparr>"

section \<open>Facts about the store and the derivation\<close>

lemmas sample_replies =
  zero_technical_reply_def all_zero_reply_def null_entry_reply_def unconvertible_reply_def

lemma session_update_Some:
  "sessions d i = Some s \<Longrightarrow> session_update d i f = Inr (d\<lparr>sessions := (sessions d)(i \<mapsto> f s)\<rparr>)"
  by (simp add: session_update_def)

lemma sessions_try_upsert [simp]:
  "sessions (try_analytics e c d (analytics_upsert d i upd cre)) = sessions d"
  by (simp add: try_analytics_def analytics_upsert_def)

lemma sessions_try_updateMany [simp]:
  "sessions (try_analytics e c d (analytics_updateMany d i upd)) = sessions d"
  by (simp add: try_analytics_def analytics_updateMany_def split: option.splits)

lemma sessions_transcript_analytics [simp]:
  "sessions (transcript_analytics e d i s t) = sessions d"
  by (simp add: transcript_analytics_def)

lemma sessions_completion_analytics [simp]:
  "sessions (completion_analytics e d i s t m) = sessions d"
  by (simp add: completion_analytics_def)

lemma trim_Nil [simp]: "trim [] = []"
  by (simp add: trim_def)

lemma long_not_empty: "10 \<le> length (trim s) \<Longrightarrow> s \<noteq> []"
  by auto

lemma body_short:
  assumes "sessions d sessionId = Some s"
    and "length (trim (format_transcript transcript messages)) < 10"
  shows "snd (feedback_body e d sessionId transcript messages) = Resolved (Some no_transcript_feedback)"
    and "sessions (fst (feedback_body e d sessionId transcript messages))
           = (sessions d)(sessionId \<mapsto> no_transcript_update e s)"
  using assms by (simp_all add: feedback_body_def Let_def session_update_Some)

lemma body_throws:
  assumes "sessions d sessionId = Some s"
    and "10 \<le> length (trim (format_transcript transcript messages))"
    and "feedback_reply e = Throws"
  shows "snd (feedback_body e d sessionId transcript messages) = Resolved (Some model_error_feedback)"
    and "sessions (fst (feedback_body e d sessionId transcript messages))
           = (sessions d)(sessionId \<mapsto> model_error_update e s)"
  using assms long_not_empty[OF assms(2)]
  by (simp_all add: feedback_body_def Let_def session_update_Some)

lemma body_hangs:
  assumes "sessions d sessionId = Some s"
    and "10 \<le> length (trim (format_transcript transcript messages))"
    and "feedback_reply e = Hangs"
  shows "snd (feedback_body e d sessionId transcript messages) = Pending"
    and "sessions (fst (feedback_body e d sessionId transcript messages)) = sessions d"
  using assms long_not_empty[OF assms(2)]
  by (simp_all add: feedback_body_def Let_def)

lemma body_responds:
  assumes "sessions d sessionId = Some s"
    and "10 \<le> length (trim (format_transcript transcript messages))"
    and "feedback_reply e = Responds text"
  shows "snd (feedback_body e d sessionId transcript messages) =
           (case ensure_structure (parse_feedback e (clean_response text)) of
              Inl err \<Rightarrow> Rejected err
            | Inr feedback \<Rightarrow>
                (case updateData e (clean_response text) feedback of
                   Inl err \<Rightarrow> Rejected err
                 | Inr upd \<Rightarrow> Resolved (Some feedback)))"
    and "sessions (fst (feedback_body e d sessionId transcript messages)) =
           (case ensure_structure (parse_feedback e (clean_response text)) of
              Inl err \<Rightarrow> sessions d
            | Inr feedback \<Rightarrow>
                (case updateData e (clean_response text) feedback of
                   Inl err \<Rightarrow> sessions d
                 | Inr upd \<Rightarrow> (sessions d)(sessionId \<mapsto> upd s)))"
  using assms long_not_empty[OF assms(2)]
  by (simp_all add: feedback_body_def score_response_def Let_def session_update_Some split: sum.splits)


lemma sessions_best_effort_update:
  "sessions (best_effort d (session_update d i f)) =
     (case sessions d i of None \<Rightarrow> sessions d | Some s \<Rightarrow> (sessions d)(i \<mapsto> f s))"
  by (simp add: best_effort_def session_update_def split: option.splits)

lemma derivation_result:
  "snd (generateFeedbackFromTranscript e d sessionId transcript messages) =
     (case snd (feedback_body e d sessionId transcript messages) of
        Rejected err \<Rightarrow> Resolved None
      | p \<Rightarrow> p)"
proof (cases "feedback_body e d sessionId transcript messages")
  case (Pair d' p)
  then show ?thesis
    by (cases p) (simp_all add: generateFeedbackFromTranscript_def)
qed

lemma derivation_sessions:
  "sessions (fst (generateFeedbackFromTranscript e d sessionId transcript messages)) =
     (case snd (feedback_body e d sessionId transcript messages) of
        Rejected err \<Rightarrow>
          (case sessions (fst (feedback_body e d sessionId transcript messages)) sessionId of
             None \<Rightarrow> sessions (fst (feedback_body e d sessionId transcript messages))
           | Some s \<Rightarrow> (sessions (fst (feedback_body e d sessionId transcript messages)))
                         (sessionId \<mapsto> fatal_update e s))
      | p \<Rightarrow> sessions (fst (feedback_body e d sessionId transcript messages)))"
proof (cases "feedback_body e d sessionId transcript messages")
  case (Pair d' p)
  then show ?thesis
    by (cases p)
      (simp_all add: generateFeedbackFromTranscript_def sessions_best_effort_update
        split: option.splits)
qed

lemma body_depends_on_sessions:
  assumes "sessions d1 = sessions d"
  shows "snd (feedback_body e d1 sessionId transcript messages)
           = snd (feedback_body e d sessionId transcript messages)"
    and "sessions (fst (feedback_body e d1 sessionId transcript messages))
           = sessions (fst (feedback_body e d sessionId transcript messages))"
proof -
  show "snd (feedback_body e d1 sessionId transcript messages)
           = snd (feedback_body e d sessionId transcript messages)"
  proof (cases "sessions d sessionId")
    case None
    then show ?thesis using assms by (simp add: feedback_body_def)
  next
    case (Some s)
    then have s1: "sessions d1 sessionId = Some s" using assms by simp
    show ?thesis
    proof (cases "length (trim (format_transcript transcript messages)) < 10")
      case True
      then show ?thesis using body_short(1)[OF Some True] body_short(1)[OF s1 True] by simp
    next
      case False
      then have long: "10 \<le> length (trim (format_transcript transcript messages))" by simp
      show ?thesis
      proof (cases "feedback_reply e")
        case (Responds reply)
        then show ?thesis
          using body_responds(1)[OF Some long Responds] body_responds(1)[OF s1 long Responds] by simp
      next
        case Throws
        then show ?thesis
          using body_throws(1)[OF Some long Throws] body_throws(1)[OF s1 long Throws] by simp
      next
        case Hangs
        then show ?thesis
          using body_hangs(1)[OF Some long Hangs] body_hangs(1)[OF s1 long Hangs] by simp
      qed
    qed
  qed
  show "sessions (fst (feedback_body e d1 sessionId transcript messages))
           = sessions (fst (feedback_body e d sessionId transcript messages))"
  proof (cases "sessions d sessionId")
    case None
    then show ?thesis using assms by (simp add: feedback_body_def)
  next
    case (Some s)
    then have s1: "sessions d1 sessionId = Some s" using assms by simp
    show ?thesis
    proof (cases "length (trim (format_transcript transcript messages)) < 10")
      case True
      then show ?thesis using body_short(2)[OF Some True] body_short(2)[OF s1 True] assms by simp
    next
      case False
      then have long: "10 \<le> length (trim (format_transcript transcript messages))" by simp
      show ?thesis
      proof (cases "feedback_reply e")
        case (Responds reply)
        then show ?thesis
          using body_responds(2)[OF Some long Responds] body_responds(2)[OF s1 long Responds] assms
          by (simp split: sum.splits)
      next
        case Throws
        then show ?thesis
          using body_throws(2)[OF Some long Throws] body_throws(2)[OF s1 long Throws] assms by simp
      next
        case Hangs
        then show ?thesis
          using body_hangs(2)[OF Some long Hangs] body_hangs(2)[OF s1 long Hangs] assms by simp
      qed
    qed
  qed
qed

lemma derivation_depends_on_sessions:
  assumes "sessions d1 = sessions d"
  shows "snd (generateFeedbackFromTranscript e d1 sessionId transcript messages)
           = snd (generateFeedbackFromTranscript e d sessionId transcript messages)"
    and "sessions (fst (generateFeedbackFromTranscript e d1 sessionId transcript messages))
           = sessions (fst (generateFeedbackFromTranscript e d sessionId transcript messages))"
  by (simp_all add: derivation_result derivation_sessions body_depends_on_sessions[OF assms]
      cong: promise.case_cong option.case_cong)

lemma complete_unfold:
  assumes "sessions d sessionId = Some s"
  shows "handleInterviewComplete e d sessionId transcript messages =
           (fst (race_with_timeout e sessionId
                  (generateFeedbackFromTranscript e
                     (completion_analytics e d sessionId s transcript messages)
                     sessionId transcript messages)),
            Resolved
              \<lparr> co_session =
                  sessions (fst (race_with_timeout e sessionId
                    (generateFeedbackFromTranscript e
                       (completion_analytics e d sessionId s transcript messages)
                       sessionId transcript messages))) sessionId,
                co_feedback =
                  snd (race_with_timeout e sessionId
                    (generateFeedbackFromTranscript e
                       (completion_analytics e d sessionId s transcript messages)
                       sessionId transcript messages)) \<rparr>)"
  using assms by (simp add: handleInterviewComplete_def complete_body_def Let_def)

lemma race_resolved:
  assumes "snd derived = Resolved feedback"
  shows "race_with_timeout e sessionId derived = (fst derived, feedback)"
  using assms by (simp add: race_with_timeout_def)

lemma race_pending:
  assumes "snd derived = Pending" and "sessions (fst derived) sessionId = Some r"
  shows "sessions (fst (race_with_timeout e sessionId derived))
           = (sessions (fst derived))(sessionId \<mapsto> timeout_update e r)"
    and "snd (race_with_timeout e sessionId derived) = None"
  using assms by (simp_all add: race_with_timeout_def sessions_best_effort_update)

section \<open>Degraded feedback\<close>

lemma literal_category_fields:
  "map (\<lambda>c. (get_prop c ''name'', get_prop c ''score'', get_prop c ''comment'')) (five_categories v c) =
     [ (Inr (JStr ''Communication Skills''), Inr v, Inr (JStr c)),
       (Inr (JStr ''Technical Knowledge''), Inr v, Inr (JStr c)),
       (Inr (JStr ''Problem Solving''), Inr v, Inr (JStr c)),
       (Inr (JStr ''Cultural Fit''), Inr v, Inr (JStr c)),
       (Inr (JStr ''Confidence and Clarity''), Inr v, Inr (JStr c)) ]"
  by (simp add: five_categories_def category_def)

text \<open>
  Claim C4. For a session that exists, when the transcript made from the messages or the raw
  transcript has fewer than 10 characters after trimming, the derivation returns the fixed
  document for a missing transcript: total 50, five categories each with score 50 and the
  comment ``No transcript provided''. The session is written with status COMPLETED, the four
  scores 50 and the document's final assessment as its feedback.
\<close>

theorem no_transcript_degraded:
  assumes "sessions d sessionId = Some s"
    and "length (trim (format_transcript transcript messages)) < 10"
  shows "snd (generateFeedbackFromTranscript e d sessionId transcript messages)
           = Resolved (Some no_transcript_feedback)
       \<and> totalScore no_transcript_feedback = JNum 50
       \<and> map (\<lambda>c. (get_prop c ''name'', get_prop c ''score'', get_prop c ''comment''))
              (categoryScores no_transcript_feedback) =
           [ (Inr (JStr ''Communication Skills''), Inr (JNum 50), Inr (JStr ''No transcript provided'')),
             (Inr (JStr ''Technical Knowledge''), Inr (JNum 50), Inr (JStr ''No transcript provided'')),
             (Inr (JStr ''Problem Solving''), Inr (JNum 50), Inr (JStr ''No transcript provided'')),
             (Inr (JStr ''Cultural Fit''), Inr (JNum 50), Inr (JStr ''No transcript provided'')),
             (Inr (JStr ''Confidence and Clarity''), Inr (JNum 50), Inr (JStr ''No transcript provided'')) ]
       \<and> sessions (fst (generateFeedbackFromTranscript e d sessionId transcript messages)) sessionId
           = Some (no_transcript_update e s)
       \<and> status (no_transcript_update e s) = COMPLETED
       \<and> overallScore (no_transcript_update e s) = Some 50
       \<and> technicalScore (no_transcript_update e s) = Some 50
       \<and> communicationScore (no_transcript_update e s) = Some 50
       \<and> confidenceScore (no_transcript_update e s) = Some 50
       \<and> detailedFeedback (no_transcript_update e s) = finalAssessment no_transcript_feedback
       \<and> finalAssessment no_transcript_feedback \<noteq> JNull"
proof -
  have "snd (generateFeedbackFromTranscript e d sessionId transcript messages)
          = Resolved (Some no_transcript_feedback)"
    by (simp add: derivation_result body_short(1)[OF assms])
  moreover have "sessions (fst (generateFeedbackFromTranscript e d sessionId transcript messages)) sessionId
          = Some (no_transcript_update e s)"
    by (simp add: derivation_sessions body_short[OF assms])
  moreover have "map (\<lambda>c. (get_prop c ''name'', get_prop c ''score'', get_prop c ''comment''))
              (categoryScores no_transcript_feedback) =
           [ (Inr (JStr ''Communication Skills''), Inr (JNum 50), Inr (JStr ''No transcript provided'')),
             (Inr (JStr ''Technical Knowledge''), Inr (JNum 50), Inr (JStr ''No transcript provided'')),
             (Inr (JStr ''Problem Solving''), Inr (JNum 50), Inr (JStr ''No transcript provided'')),
             (Inr (JStr ''Cultural Fit''), Inr (JNum 50), Inr (JStr ''No transcript provided'')),
             (Inr (JStr ''Confidence and Clarity''), Inr (JNum 50), Inr (JStr ''No transcript provided'')) ]"
    by (simp add: no_transcript_feedback_def literal_category_fields)
  moreover have "totalScore no_transcript_feedback = JNum 50"
    and "finalAssessment no_transcript_feedback \<noteq> JNull"
    by (simp_all add: no_transcript_feedback_def)
  ultimately show ?thesis
    by (simp add: no_transcript_update_def)
qed

text \<open>The same at a two-word transcript of the sample session.\<close>

theorem no_transcript_degraded_witness:
  "sessions sample_db ''s1'' = Some sample_session
   \<and> length (trim (format_transcript ''Hi.'' [])) < 10
   \<and> snd (generateFeedbackFromTranscript sample_env sample_db ''s1'' ''Hi.'' [])
        = Resolved (Some no_transcript_feedback)
   \<and> sessions (fst (generateFeedbackFromTranscript sample_env sample_db ''s1'' ''Hi.'' [])) ''s1''
        = Some (no_transcript_update sample_env sample_session)
   \<and> status (no_transcript_update sample_env sample_session) = COMPLETED
   \<and> overallScore (no_transcript_update sample_env sample_session) = Some 50"
proof -
  have h1: "sessions sample_db ''s1'' = Some sample_session"
    by (simp add: sample_db_def)
  have h2: "length (trim (format_transcript ''Hi.'' [])) < 10"
    by code_simp
  show ?thesis
    using h1 h2 no_transcript_degraded [OF h1 h2, of sample_env] by blast
qed

text \<open>
  Claim C5. For a session that exists and a transcript of at least 10 characters after
  trimming, when the call of the text-generation service throws, the derivation does not
  throw: it resolves with the fixed document for a model error, whose total and five
  category scores are 60, and the session is written with that document's scores and
  status COMPLETED.
\<close>

theorem model_failure_degraded:
  assumes "sessions d sessionId = Some s"
    and "10 \<le> length (trim (format_transcript transcript messages))"
    and "feedback_reply e = Throws"
  shows "snd (generateFeedbackFromTranscript e d sessionId transcript messages)
           = Resolved (Some model_error_feedback)
       \<and> totalScore model_error_feedback = JNum 60
       \<and> map (\<lambda>c. (get_prop c ''name'', get_prop c ''score'')) (categoryScores model_error_feedback) =
           [ (Inr (JStr ''Communication Skills''), Inr (JNum 60)),
             (Inr (JStr ''Technical Knowledge''), Inr (JNum 60)),
             (Inr (JStr ''Problem Solving''), Inr (JNum 60)),
             (Inr (JStr ''Cultural Fit''), Inr (JNum 60)),
             (Inr (JStr ''Confidence and Clarity''), Inr (JNum 60)) ]
       \<and> sessions (fst (generateFeedbackFromTranscript e d sessionId transcript messages)) sessionId
           = Some (model_error_update e s)
       \<and> status (model_error_update e s) = COMPLETED
       \<and> overallScore (model_error_update e s) = Some 60
       \<and> technicalScore (model_error_update e s) = Some 60
       \<and> communicationScore (model_error_update e s) = Some 60
       \<and> confidenceScore (model_error_update e s) = Some 60"
proof -
  have "snd (generateFeedbackFromTranscript e d sessionId transcript messages)
          = Resolved (Some model_error_feedback)"
    by (simp add: derivation_result body_throws(1)[OF assms])
  moreover have "sessions (fst (generateFeedbackFromTranscript e d sessionId transcript messages)) sessionId
          = Some (model_error_update e s)"
    by (simp add: derivation_sessions body_throws[OF assms])
  moreover have "map (\<lambda>c. (get_prop c ''name'', get_prop c ''score'')) (categoryScores model_error_feedback) =
           [ (Inr (JStr ''Communication Skills''), Inr (JNum 60)),
             (Inr (JStr ''Technical Knowledge''), Inr (JNum 60)),
             (Inr (JStr ''Problem Solving''), Inr (JNum 60)),
             (Inr (JStr ''Cultural Fit''), Inr (JNum 60)),
             (Inr (JStr ''Confidence and Clarity''), Inr (JNum 60)) ]"
    by (simp add: model_error_feedback_def five_categories_def category_def)
  moreover have "totalScore model_error_feedback = JNum 60"
    by (simp add: model_error_feedback_def)
  ultimately show ?thesis
    by (simp add: model_error_update_def)
qed

text \<open>The same for the sample session and a service that throws.\<close>

theorem model_failure_degraded_witness:
  "sessions sample_db ''s1'' = Some sample_session
   \<and> 10 \<le> length (trim (format_transcript sample_transcript []))
   \<and> feedback_reply sample_env = Throws
   \<and> snd (generateFeedbackFromTranscript sample_env sample_db ''s1'' sample_transcript [])
        = Resolved (Some model_error_feedback)
   \<and> sessions (fst (generateFeedbackFromTranscript sample_env sample_db ''s1'' sample_transcript [])) ''s1''
        = Some (model_error_update sample_env sample_session)
   \<and> status (model_error_update sample_env sample_session) = COMPLETED
   \<and> overallScore (model_error_update sample_env sample_session) = Some 60"
proof -
  have h1: "sessions sample_db ''s1'' = Some sample_session"
    by (simp add: sample_db_def)
  have h2: "10 \<le> length (trim (format_transcript sample_transcript []))"
    by code_simp
  have h3: "feedback_reply sample_env = Throws"
    by (simp add: sample_env_def)
  show ?thesis
    using h1 h2 h3 model_failure_degraded [OF h1 h2 h3] by blast
qed

section \<open>Completion\<close>

text \<open>
  The three ways the derivation can end for a session that exists: pending on the service,
  an exception inside (caught, the session written with score 50, \<^verbatim>\<open>null\<close> returned), or a
  document returned and the session written from it.
\<close>

lemma updateData_writes:
  assumes "updateData e cleanedText feedback = Inr upd"
  shows "status (upd s) = COMPLETED"
    and "truthy (detailedFeedback (upd s))"
  using assms
  by (auto simp add: updateData_def or_text_def split: sum.splits)

lemma truthy_not_null: "truthy v \<Longrightarrow> v \<noteq> JNull"
  by auto

lemma derivation_cases:
  assumes "sessions d sessionId = Some s"
  obtains
    (pending)
      "snd (feedback_body e d sessionId transcript messages) = Pending"
      "snd (generateFeedbackFromTranscript e d sessionId transcript messages) = Pending"
      "sessions (fst (generateFeedbackFromTranscript e d sessionId transcript messages)) = sessions d"
  | (thrown) err where
      "snd (feedback_body e d sessionId transcript messages) = Rejected err"
      "snd (generateFeedbackFromTranscript e d sessionId transcript messages) = Resolved None"
      "sessions (fst (generateFeedbackFromTranscript e d sessionId transcript messages))
         = (sessions d)(sessionId \<mapsto> fatal_update e s)"
  | (returned) feedback upd where
      "snd (feedback_body e d sessionId transcript messages) = Resolved (Some feedback)"
      "snd (generateFeedbackFromTranscript e d sessionId transcript messages) = Resolved (Some feedback)"
      "sessions (fst (generateFeedbackFromTranscript e d sessionId transcript messages))
         = (sessions d)(sessionId \<mapsto> upd s)"
      "status (upd s) = COMPLETED"
      "truthy (detailedFeedback (upd s))"
proof (cases "length (trim (format_transcript transcript messages)) < 10")
  case True
  have "status (no_transcript_update e s) = COMPLETED"
    and "truthy (detailedFeedback (no_transcript_update e s))"
    by (simp_all add: no_transcript_update_def no_transcript_feedback_def)
  then show ?thesis
    using returned[of no_transcript_feedback "no_transcript_update e"] body_short[OF assms True]
    by (simp add: derivation_result derivation_sessions)
next
  case False
  then have long: "10 \<le> length (trim (format_transcript transcript messages))" by simp
  show ?thesis
  proof (cases "feedback_reply e")
    case Hangs
    then show ?thesis
      using pending body_hangs[OF assms long Hangs]
      by (simp add: derivation_result derivation_sessions)
  next
    case Throws
    have "status (model_error_update e s) = COMPLETED"
      and "truthy (detailedFeedback (model_error_update e s))"
      by (simp_all add: model_error_update_def model_error_feedback_def)
    then show ?thesis
      using returned[of model_error_feedback "model_error_update e"] body_throws[OF assms long Throws]
      by (simp add: derivation_result derivation_sessions)
  next
    case (Responds reply)
    note body = body_responds[OF assms long Responds]
    show ?thesis
    proof (cases "ensure_structure (parse_feedback e (clean_response reply))")
      case (Inl err)
      then show ?thesis
        using thrown[of err] body assms
        by (simp add: derivation_result derivation_sessions)
    next
      case (Inr feedback)
      show ?thesis
      proof (cases "updateData e (clean_response reply) feedback")
        case (Inl err)
        then show ?thesis
          using thrown[of err] body assms Inr
          by (simp add: derivation_result derivation_sessions)
      next
        case (Inr upd)
        then show ?thesis
          using returned[of feedback upd] body assms \<open>ensure_structure _ = Inr feedback\<close>
            updateData_writes(1,2)[OF Inr, of s]
          by (simp add: derivation_result derivation_sessions)
      qed
    qed
  qed
qed

lemma complete_resolved:
  assumes "sessions d sessionId = Some s"
    and "snd (generateFeedbackFromTranscript e d sessionId transcript messages) = Resolved feedback"
  shows "sessions (fst (handleInterviewComplete e d sessionId transcript messages))
           = sessions (fst (generateFeedbackFromTranscript e d sessionId transcript messages))"
    and "snd (handleInterviewComplete e d sessionId transcript messages) =
           Resolved \<lparr> co_session =
                        sessions (fst (generateFeedbackFromTranscript e d sessionId transcript messages)) sessionId,
                      co_feedback = feedback \<rparr>"
proof -
  have same: "sessions (completion_analytics e d sessionId s transcript messages) = sessions d"
    by simp
  have "snd (generateFeedbackFromTranscript e (completion_analytics e d sessionId s transcript messages)
               sessionId transcript messages) = Resolved feedback"
    using assms(2) derivation_depends_on_sessions(1)[OF same] by simp
  then have race: "race_with_timeout e sessionId
            (generateFeedbackFromTranscript e (completion_analytics e d sessionId s transcript messages)
               sessionId transcript messages)
          = (fst (generateFeedbackFromTranscript e (completion_analytics e d sessionId s transcript messages)
               sessionId transcript messages), feedback)"
    by (rule race_resolved)
  show "sessions (fst (handleInterviewComplete e d sessionId transcript messages))
           = sessions (fst (generateFeedbackFromTranscript e d sessionId transcript messages))"
    by (simp add: complete_unfold[OF assms(1)] race derivation_depends_on_sessions(2)[OF same])
  show "snd (handleInterviewComplete e d sessionId transcript messages) =
           Resolved \<lparr> co_session =
                        sessions (fst (generateFeedbackFromTranscript e d sessionId transcript messages)) sessionId,
                      co_feedback = feedback \<rparr>"
    by (simp add: complete_unfold[OF assms(1)] race derivation_depends_on_sessions(2)[OF same])
qed

text \<open>
  Claim C1, as amended. For a session that exists, completion resolves and leaves the
  session with status COMPLETED and a feedback text that is not null, however the derivation
  ends. When the derivation throws inside or is still pending when the timer fires, the
  feedback returned is null and the overall score written is 50. When it is the call of the
  text-generation service that throws, on a transcript of at least 10 characters, the
  derivation returns its model-error document and the overall score written is 60.
\<close>

theorem completion_after_failed_derivation:
  assumes "sessions d sessionId = Some s"
  shows "\<exists>r s'. snd (handleInterviewComplete e d sessionId transcript messages) = Resolved r
       \<and> co_session r = Some s'
       \<and> sessions (fst (handleInterviewComplete e d sessionId transcript messages)) sessionId = Some s'
       \<and> status s' = COMPLETED
       \<and> detailedFeedback s' \<noteq> JNull
       \<and> ((\<exists>err. snd (feedback_body e d sessionId transcript messages) = Rejected err)
            \<longrightarrow> co_feedback r = None \<and> overallScore s' = Some 50)
       \<and> (snd (feedback_body e d sessionId transcript messages) = Pending
            \<longrightarrow> co_feedback r = None \<and> overallScore s' = Some 50)
       \<and> (feedback_reply e = Throws \<and> 10 \<le> length (trim (format_transcript transcript messages))
            \<longrightarrow> co_feedback r = Some model_error_feedback \<and> overallScore s' = Some 60)"
proof -
  define d1 where "d1 = completion_analytics e d sessionId s transcript messages"
  define G where "G = generateFeedbackFromTranscript e d1 sessionId transcript messages"
  define R where "R = race_with_timeout e sessionId G"
  have same: "sessions d1 = sessions d"
    by (simp add: d1_def)
  then have s1: "sessions d1 sessionId = Some s"
    using assms by simp
  have body: "snd (feedback_body e d1 sessionId transcript messages)
                = snd (feedback_body e d sessionId transcript messages)"
    by (rule body_depends_on_sessions(1)[OF same])
  have out: "handleInterviewComplete e d sessionId transcript messages =
               (fst R, Resolved \<lparr> co_session = sessions (fst R) sessionId, co_feedback = snd R \<rparr>)"
    unfolding R_def G_def d1_def by (rule complete_unfold[OF assms])
  have thrown_only:
    "snd (feedback_body e d sessionId transcript messages) = Resolved (Some model_error_feedback)
     \<and> sessions (fst (feedback_body e d sessionId transcript messages))
           = (sessions d)(sessionId \<mapsto> model_error_update e s)"
    if "feedback_reply e = Throws \<and> 10 \<le> length (trim (format_transcript transcript messages))"
    using body_throws[OF assms] that by blast
  from s1 show ?thesis
  proof (cases rule: derivation_cases[where e = e and transcript = transcript and messages = messages])
    case pending
    have r: "sessions (fst R) = (sessions d)(sessionId \<mapsto> timeout_update e s)" "snd R = None"
      using race_pending[of G sessionId s e] pending s1 same
      by (simp_all add: R_def G_def)
    have "status (timeout_update e s) = COMPLETED"
      and "detailedFeedback (timeout_update e s) \<noteq> JNull"
      and "overallScore (timeout_update e s) = Some 50"
      by (simp_all add: timeout_update_def)
    moreover have "\<not> (feedback_reply e = Throws
        \<and> 10 \<le> length (trim (format_transcript transcript messages)))"
      using thrown_only pending(1) body by auto
    ultimately show ?thesis
      using out r by simp
  next
    case (thrown err)
    have r: "sessions (fst R) = (sessions d)(sessionId \<mapsto> fatal_update e s)" "snd R = None"
      using race_resolved[of G None e sessionId] thrown same
      by (simp_all add: R_def G_def)
    have "status (fatal_update e s) = COMPLETED"
      and "detailedFeedback (fatal_update e s) \<noteq> JNull"
      and "overallScore (fatal_update e s) = Some 50"
      by (simp_all add: fatal_update_def)
    moreover have "\<not> (feedback_reply e = Throws
        \<and> 10 \<le> length (trim (format_transcript transcript messages)))"
      using thrown_only thrown(1) body by auto
    ultimately show ?thesis
      using out r by simp
  next
    case (returned feedback upd)
    have r: "sessions (fst R) = (sessions d)(sessionId \<mapsto> upd s)" "snd R = Some feedback"
      using race_resolved[of G "Some feedback" e sessionId] returned same
      by (simp_all add: R_def G_def)
    have settled: "snd (feedback_body e d sessionId transcript messages) = Resolved (Some feedback)"
      using returned(1) body by simp
    have "feedback = model_error_feedback \<and> overallScore (upd s) = Some 60"
      if t: "feedback_reply e = Throws \<and> 10 \<le> length (trim (format_transcript transcript messages))"
    proof -
      have "feedback = model_error_feedback"
        using thrown_only[OF t] settled by simp
      moreover have "sessions (fst (generateFeedbackFromTranscript e d sessionId transcript messages))
                       = (sessions d)(sessionId \<mapsto> model_error_update e s)"
        using thrown_only[OF t] by (simp add: derivation_sessions)
      then have "(sessions d)(sessionId \<mapsto> upd s) = (sessions d)(sessionId \<mapsto> model_error_update e s)"
        using returned(3) derivation_depends_on_sessions(2)[OF same] same by simp
      then have "upd s = model_error_update e s"
        by (metis fun_upd_same option.inject)
      ultimately show ?thesis
        by (simp add: model_error_update_def)
    qed
    then show ?thesis
      using out r settled returned(4) truthy_not_null[OF returned(5)] by simp
  qed
qed

text \<open>
  The theorem at the sample session, for the three kinds of failure. A reply that is the
  text \<^verbatim>\<open>null\<close> parses to \<^verbatim>\<open>null\<close> and the first read of a field throws: score 50. A service
  that does not answer leaves the derivation pending: score 50. A service that throws: score
  60.
\<close>

theorem completion_after_failed_derivation_witness:
  "sessions sample_db ''s1'' = Some sample_session
   \<and> snd (feedback_body (sample_env\<lparr>feedback_reply := Responds ''null''\<rparr>) sample_db ''s1''
            sample_transcript []) = Rejected TypeError
   \<and> map_option status
        (sessions (fst (handleInterviewComplete (sample_env\<lparr>feedback_reply := Responds ''null''\<rparr>)
           sample_db ''s1'' sample_transcript [])) ''s1'') = Some COMPLETED
   \<and> map_option overallScore
        (sessions (fst (handleInterviewComplete (sample_env\<lparr>feedback_reply := Responds ''null''\<rparr>)
           sample_db ''s1'' sample_transcript [])) ''s1'') = Some (Some 50)
   \<and> snd (feedback_body (sample_env\<lparr>feedback_reply := Hangs\<rparr>) sample_db ''s1''
            sample_transcript []) = Pending
   \<and> map_option status
        (sessions (fst (handleInterviewComplete (sample_env\<lparr>feedback_reply := Hangs\<rparr>)
           sample_db ''s1'' sample_transcript [])) ''s1'') = Some COMPLETED
   \<and> map_option overallScore
        (sessions (fst (handleInterviewComplete (sample_env\<lparr>feedback_reply := Hangs\<rparr>)
           sample_db ''s1'' sample_transcript [])) ''s1'') = Some (Some 50)
   \<and> feedback_reply sample_env = Throws
   \<and> 10 \<le> length (trim (format_transcript sample_transcript []))
   \<and> (\<exists>r s'. snd (handleInterviewComplete sample_env sample_db ''s1'' sample_transcript [])
                  = Resolved r
          \<and> co_session r = Some s' \<and> status s' = COMPLETED \<and> detailedFeedback s' \<noteq> JNull
          \<and> co_feedback r = Some model_error_feedback \<and> overallScore s' = Some 60)"
proof -
  let ?e = "sample_env\<lparr>feedback_reply := Responds ''null''\<rparr>"
  let ?h = "sample_env\<lparr>feedback_reply := Hangs\<rparr>"
  have h1: "sessions sample_db ''s1'' = Some sample_session"
    by (simp add: sample_db_def)
  have long: "10 \<le> length (trim (format_transcript sample_transcript []))"
    by code_simp
  have reply: "feedback_reply ?e = Responds ''null''"
    by simp
  have "clean_response ''null'' = ''null''"
    by code_simp
  moreover have "JSON_parse ?e ''null'' = Some JNull"
    by (simp add: sample_env_def JSON_parse_sample_def sample_replies)
  ultimately have "ensure_structure (parse_feedback ?e (clean_response ''null'')) = Inl TypeError"
    by (simp add: parse_feedback_def ensure_structure_def)
  then have h2: "snd (feedback_body ?e sample_db ''s1'' sample_transcript []) = Rejected TypeError"
    using body_responds(1)[OF h1 long reply] by simp
  have hangs: "feedback_reply ?h = Hangs"
    by simp
  have h3: "snd (feedback_body ?h sample_db ''s1'' sample_transcript []) = Pending"
    by (rule body_hangs(1)[OF h1 long hangs])
  have throws: "feedback_reply sample_env = Throws"
    by (simp add: sample_env_def)
  have first: "map_option status
        (sessions (fst (handleInterviewComplete ?e sample_db ''s1'' sample_transcript [])) ''s1'')
          = Some COMPLETED
      \<and> map_option overallScore
        (sessions (fst (handleInterviewComplete ?e sample_db ''s1'' sample_transcript [])) ''s1'')
          = Some (Some 50)"
    using h2 completion_after_failed_derivation [OF h1, of ?e sample_transcript "[]"]
    by auto
  have second: "map_option status
        (sessions (fst (handleInterviewComplete ?h sample_db ''s1'' sample_transcript [])) ''s1'')
          = Some COMPLETED
      \<and> map_option overallScore
        (sessions (fst (handleInterviewComplete ?h sample_db ''s1'' sample_transcript [])) ''s1'')
          = Some (Some 50)"
    using h3 completion_after_failed_derivation [OF h1, of ?h sample_transcript "[]"]
    by auto
  have third: "\<exists>r s'. snd (handleInterviewComplete sample_env sample_db ''s1'' sample_transcript [])
                  = Resolved r
          \<and> co_session r = Some s' \<and> status s' = COMPLETED \<and> detailedFeedback s' \<noteq> JNull
          \<and> co_feedback r = Some model_error_feedback \<and> overallScore s' = Some 60"
    using throws long completion_after_failed_derivation [OF h1, of sample_env sample_transcript "[]"]
    by blast
  show ?thesis
    using h1 h2 first h3 second throws long third by (intro conjI) blast+
qed

text \<open>
  The claim as it stands fails when the failure is the service throwing: the session ends
  with overall score 60, not 50.
\<close>

theorem completion_score_counterexample:
  "sessions sample_db ''s1'' = Some sample_session
   \<and> feedback_reply sample_env = Throws
   \<and> map_option status
        (sessions (fst (handleInterviewComplete sample_env sample_db ''s1'' sample_transcript [])) ''s1'')
        = Some COMPLETED
   \<and> map_option overallScore
        (sessions (fst (handleInterviewComplete sample_env sample_db ''s1'' sample_transcript [])) ''s1'')
        = Some (Some 60)"
proof -
  have h1: "sessions sample_db ''s1'' = Some sample_session"
    by (simp add: sample_db_def)
  have long: "10 \<le> length (trim (format_transcript sample_transcript []))"
    by code_simp
  have throws: "feedback_reply sample_env = Throws"
    by (simp add: sample_env_def)
  have "snd (generateFeedbackFromTranscript sample_env sample_db ''s1'' sample_transcript [])
          = Resolved (Some model_error_feedback)"
    by (simp add: derivation_result body_throws(1)[OF h1 long throws])
  from complete_resolved(1)[OF h1 this]
  have "sessions (fst (handleInterviewComplete sample_env sample_db ''s1'' sample_transcript [])) ''s1''
          = Some (model_error_update sample_env sample_session)"
    by (simp add: derivation_sessions body_throws[OF h1 long throws])
  then show ?thesis
    using h1 throws by (simp add: model_error_update_def)
qed

lemma complete_missing:
  assumes "sessions d sessionId = None"
  shows "handleInterviewComplete e d sessionId transcript messages
           = (d, Rejected (Error ''Session not found''))"
  using assms
  by (simp add: handleInterviewComplete_def complete_body_def best_effort_def session_update_def)

lemma complete_writes_one:
  assumes "sessions d sessionId = Some s"
  shows "\<exists>s'. sessions (fst (handleInterviewComplete e d sessionId transcript messages))
                = (sessions d)(sessionId \<mapsto> s')
              \<and> status s' = COMPLETED"
proof -
  define d1 where "d1 = completion_analytics e d sessionId s transcript messages"
  define G where "G = generateFeedbackFromTranscript e d1 sessionId transcript messages"
  have same: "sessions d1 = sessions d"
    by (simp add: d1_def)
  then have s1: "sessions d1 sessionId = Some s"
    using assms by simp
  have out: "sessions (fst (handleInterviewComplete e d sessionId transcript messages))
               = sessions (fst (race_with_timeout e sessionId G))"
    unfolding G_def d1_def by (simp add: complete_unfold[OF assms])
  from s1 show ?thesis
  proof (cases rule: derivation_cases[where e = e and transcript = transcript and messages = messages])
    case pending
    have "sessions (fst (race_with_timeout e sessionId G)) = (sessions d)(sessionId \<mapsto> timeout_update e s)"
      using race_pending(1)[of G sessionId s e] pending s1 same by (simp add: G_def)
    moreover have "status (timeout_update e s) = COMPLETED"
      by (simp add: timeout_update_def)
    ultimately show ?thesis using out by auto
  next
    case (thrown err)
    have "sessions (fst (race_with_timeout e sessionId G)) = (sessions d)(sessionId \<mapsto> fatal_update e s)"
      using race_resolved[of G None e sessionId] thrown same by (simp add: G_def)
    moreover have "status (fatal_update e s) = COMPLETED"
      by (simp add: fatal_update_def)
    ultimately show ?thesis using out by auto
  next
    case (returned feedback upd)
    have "sessions (fst (race_with_timeout e sessionId G)) = (sessions d)(sessionId \<mapsto> upd s)"
      using race_resolved[of G "Some feedback" e sessionId] returned same by (simp add: G_def)
    then show ?thesis using out returned(4) by auto
  qed
qed

lemma complete_frame:
  assumes "j \<noteq> i"
  shows "sessions (fst (handleInterviewComplete e d j transcript messages)) i = sessions d i"
proof (cases "sessions d j")
  case None
  then show ?thesis by (simp add: complete_missing)
next
  case (Some s)
  from complete_writes_one[OF Some, of e transcript messages] assms show ?thesis
    by auto
qed

section \<open>Starting and creating\<close>

lemma map_err_strings: "map_err question_text (map JStr qs) = Inr (map JStr qs)"
  by (induction qs) (simp_all add: question_text_def)

lemma strings_convert: "\<not> list_ex to_primitive_throws (map JStr qs)"
  by (induction qs) simp_all

lemma start_questions_strings:
  assumes "questions s = JArr (map JStr qs)"
  shows "start_questions s = Inr (map JStr qs)"
  using assms by (simp add: start_questions_def map_err_strings strings_convert)

text \<open>The three rejections that come before the session is touched.\<close>

lemma start_unauthorized:
  assumes "\<not> truthy_str (auth_userId e)"
  shows "startInterviewWithQuestions e d i = (d, Rejected (Error ''Unauthorized''))"
  using assms by (simp add: startInterviewWithQuestions_def)

lemma start_no_user:
  assumes "truthy_str (auth_userId e)"
    and "users d (the (auth_userId e)) = None"
  shows "startInterviewWithQuestions e d i = (d, Rejected (Error ''User not found''))"
  using assms by (simp add: startInterviewWithQuestions_def)

lemma start_not_found:
  assumes "truthy_str (auth_userId e)"
    and "users d (the (auth_userId e)) = Some u"
    and "session_findFirst d i (user_id u) = None"
  shows "startInterviewWithQuestions e d i = (d, Rejected (Error ''Interview session not found''))"
  using assms by (simp add: startInterviewWithQuestions_def)

lemma start_not_owner:
  assumes "truthy_str (auth_userId e)"
    and "users d (the (auth_userId e)) = Some u"
    and "sessions d i = Some s"
    and "userId s \<noteq> user_id u"
  shows "startInterviewWithQuestions e d i = (d, Rejected (Error ''Interview session not found''))"
  using assms by (simp add: start_not_found session_findFirst_def)

text \<open>The owner's start: IN_PROGRESS when the questions are read, FAILED when reading them throws.\<close>

lemma start_owner_resolved:
  assumes "truthy_str (auth_userId e)"
    and "users d (the (auth_userId e)) = Some u"
    and "sessions d i = Some s"
    and "userId s = user_id u"
    and "start_questions s = Inr qs"
  shows "startInterviewWithQuestions e d i =
           (d\<lparr>sessions := (sessions d)(i \<mapsto> s\<lparr>status := IN_PROGRESS, startedAt := Some (now e)\<rparr>)\<rparr>,
            Resolved \<lparr> st_session = s\<lparr>status := IN_PROGRESS, startedAt := Some (now e)\<rparr>,
                       st_questions = qs \<rparr>)"
proof -
  have found: "session_findFirst d i (user_id u) = Some s"
    using assms(3,4) by (simp add: session_findFirst_def)
  have "start_body e d i s =
          (d\<lparr>sessions := (sessions d)(i \<mapsto> s\<lparr>status := IN_PROGRESS, startedAt := Some (now e)\<rparr>)\<rparr>,
           Inr \<lparr> st_session = s\<lparr>status := IN_PROGRESS, startedAt := Some (now e)\<rparr>,
                 st_questions = qs \<rparr>)"
    using assms(3,5) by (simp add: start_body_def session_update_def)
  then show ?thesis
    using assms(1,2) found by (simp add: startInterviewWithQuestions_def)
qed

lemma start_owner_failed:
  assumes "truthy_str (auth_userId e)"
    and "users d (the (auth_userId e)) = Some u"
    and "sessions d i = Some s"
    and "userId s = user_id u"
    and "start_questions s = Inl err"
  shows "startInterviewWithQuestions e d i =
           (d\<lparr>sessions := (sessions d)(i \<mapsto> s\<lparr>status := FAILED\<rparr>)\<rparr>, Rejected err)"
proof -
  have found: "session_findFirst d i (user_id u) = Some s"
    using assms(3,4) by (simp add: session_findFirst_def)
  have "start_body e d i s = (d, Inl err)"
    using assms(5) by (simp add: start_body_def)
  then show ?thesis
    using assms(1-3) found
    by (simp add: startInterviewWithQuestions_def best_effort_def session_update_def)
qed

lemma start_effect:
  assumes "sessions d i = Some s"
  shows "(sessions (fst (startInterviewWithQuestions e d i)) = sessions d
            \<and> (\<exists>err. snd (startInterviewWithQuestions e d i) = Rejected err))
       \<or> (sessions (fst (startInterviewWithQuestions e d i)) = (sessions d)(i \<mapsto> s\<lparr>status := FAILED\<rparr>)
            \<and> (\<exists>err. snd (startInterviewWithQuestions e d i) = Rejected err))
       \<or> (sessions (fst (startInterviewWithQuestions e d i))
              = (sessions d)(i \<mapsto> s\<lparr>status := IN_PROGRESS, startedAt := Some (now e)\<rparr>)
            \<and> (\<exists>r. snd (startInterviewWithQuestions e d i) = Resolved r))"
proof (cases "truthy_str (auth_userId e)")
  case False
  then show ?thesis by (simp add: start_unauthorized)
next
  case True
  show ?thesis
  proof (cases "users d (the (auth_userId e))")
    case None
    then show ?thesis using True by (simp add: start_no_user)
  next
    case (Some u)
    show ?thesis
    proof (cases "userId s = user_id u")
      case False
      then show ?thesis
        using True Some assms by (simp add: start_not_owner)
    next
      case owner: True
      show ?thesis
      proof (cases "start_questions s")
        case (Inl err)
        show ?thesis
          by (simp add: start_owner_failed[OF True Some assms owner Inl])
      next
        case (Inr qs)
        show ?thesis
          by (simp add: start_owner_resolved[OF True Some assms owner Inr])
      qed
    qed
  qed
qed

lemma start_frame:
  assumes "j \<noteq> i"
  shows "sessions (fst (startInterviewWithQuestions e d j)) i = sessions d i"
proof (cases "sessions d j")
  case None
  then show ?thesis
    by (simp add: startInterviewWithQuestions_def session_findFirst_def split: option.splits)
next
  case (Some s)
  from start_effect[OF Some, of e] assms show ?thesis
    by auto
qed

lemma create_effect:
  "(fst (createInterviewSession e d sd) = d \<and> (\<forall>c. snd (createInterviewSession e d sd) \<noteq> Resolved c))
   \<or> (\<exists>c. snd (createInterviewSession e d sd) = Resolved c
          \<and> sessions d (sid (cr_session c)) = None
          \<and> sessions (fst (createInterviewSession e d sd))
               = (sessions d)(sid (cr_session c) \<mapsto> cr_session c)
          \<and> status (cr_session c) = SCHEDULED)"
proof (cases "truthy_str (auth_userId e)")
  case False
  then show ?thesis by (simp add: createInterviewSession_def)
next
  case True
  show ?thesis
  proof (cases "users d (the (auth_userId e))")
    case None
    then show ?thesis using True by (simp add: createInterviewSession_def)
  next
    case (Some u)
    show ?thesis
    proof (cases "generateInterviewQuestions e d sd")
      case Pending
      then show ?thesis using True Some by (simp add: createInterviewSession_def)
    next
      case (Resolved v)
      then show ?thesis
        using True Some
        by (cases "sessions d (fresh_id e)")
           (simp_all add: createInterviewSession_def session_create_def Let_def new_session_def)
    next
      case (Rejected err)
      then show ?thesis
        using True Some
        by (cases "sessions d (fresh_id e)")
           (simp_all add: createInterviewSession_def session_create_def Let_def new_session_def)
    qed
  qed
qed

lemma questions_fallback:
  assumes "truthy_str (auth_userId e)"
    and "users d (the (auth_userId e)) = Some u"
    and "questions_reply e = Throws
         \<or> (\<exists>reply. questions_reply e = Responds reply
                \<and> JSON_parse e (trim (strip_fences reply)) = None)"
  shows "generateInterviewQuestions e d sd
           = Resolved (JArr (map JStr (fallback_questions (sd_role sd))))"
  using assms by (auto simp add: generateInterviewQuestions_def)

lemma create_with_fallback:
  assumes "truthy_str (auth_userId e)"
    and "users d (the (auth_userId e)) = Some u"
    and "sessions d (fresh_id e) = None"
    and "questions_reply e = Throws
         \<or> (\<exists>reply. questions_reply e = Responds reply
                \<and> JSON_parse e (trim (strip_fences reply)) = None)"
  shows "createInterviewSession e d sd =
           (d\<lparr>sessions := (sessions d)(fresh_id e \<mapsto>
                 new_session e u sd (JArr (map JStr (fallback_questions (sd_role sd)))))\<rparr>,
            Resolved \<lparr> cr_session = new_session e u sd (JArr (map JStr (fallback_questions (sd_role sd)))),
                       prepwiseInterviewId = ''prepwise-'' @ decimal (now e) \<rparr>)"
proof -
  have sid_new: "sid (new_session e u sd qs) = fresh_id e" for qs
    by (simp add: new_session_def)
  show ?thesis
    using assms(1-3) questions_fallback[OF assms(1,2,4), of sd]
    by (simp add: createInterviewSession_def session_create_def Let_def sid_new)
qed

lemma create_with_parsed:
  assumes "truthy_str (auth_userId e)"
    and "users d (the (auth_userId e)) = Some u"
    and "sessions d (fresh_id e) = None"
    and "questions_reply e = Responds reply"
    and "JSON_parse e (trim (strip_fences reply)) = Some v"
  shows "createInterviewSession e d sd =
           (d\<lparr>sessions := (sessions d)(fresh_id e \<mapsto>
                 new_session e u sd (if is_array v then v else JArr []))\<rparr>,
            Resolved \<lparr> cr_session = new_session e u sd (if is_array v then v else JArr []),
                       prepwiseInterviewId = ''prepwise-'' @ decimal (now e) \<rparr>)"
proof -
  have sid_new: "sid (new_session e u sd qs) = fresh_id e" for qs
    by (simp add: new_session_def)
  have "generateInterviewQuestions e d sd = Resolved v"
    using assms by (simp add: generateInterviewQuestions_def)
  then show ?thesis
    using assms(1-3)
    by (simp add: createInterviewSession_def session_create_def Let_def sid_new)
qed

section \<open>The status of a session\<close>

text \<open>
  Claim C2, as amended. No operation looks at the status a session has; each writes its own.
  For a session \<open>i\<close> that exists, with record \<open>s\<close>:

  \<^item> creating a session leaves \<open>i\<close> as it is, and the session created is new and SCHEDULED;
  \<^item> starting or completing another session leaves \<open>i\<close> as it is;
  \<^item> starting \<open>i\<close> with no identity, with an identity that has no user record, or as a user
    who does not own \<open>i\<close>, rejects and leaves the whole store as it is;
  \<^item> starting \<open>i\<close> as its owner, when the questions are read and put into lines without a
    throw, stores \<open>i\<close> as IN_PROGRESS with the start time, whatever its status was, and
    resolves with that record and the questions; this is so whenever the stored questions
    are a list of strings;
  \<^item> starting \<open>i\<close> as its owner, when reading the questions or putting them into lines
    throws, stores \<open>i\<close> as FAILED, whatever its status was, and rejects with what was thrown;
  \<^item> completing \<open>i\<close> stores it as COMPLETED.

  So the status never returns to SCHEDULED, but COMPLETED and FAILED are not final.
\<close>

theorem status_written_by_operations:
  assumes "sessions d i = Some s"
  shows "sessions (fst (createInterviewSession e d sd)) i = Some s
       \<and> (\<forall>c. snd (createInterviewSession e d sd) = Resolved c \<longrightarrow>
             sessions d (sid (cr_session c)) = None
             \<and> sessions (fst (createInterviewSession e d sd)) (sid (cr_session c)) = Some (cr_session c)
             \<and> status (cr_session c) = SCHEDULED)
       \<and> (j \<noteq> i \<longrightarrow> sessions (fst (startInterviewWithQuestions e d j)) i = Some s)
       \<and> (\<not> truthy_str (auth_userId e) \<longrightarrow>
             startInterviewWithQuestions e d i = (d, Rejected (Error ''Unauthorized'')))
       \<and> (truthy_str (auth_userId e) \<and> users d (the (auth_userId e)) = None \<longrightarrow>
             startInterviewWithQuestions e d i = (d, Rejected (Error ''User not found'')))
       \<and> (\<forall>u. truthy_str (auth_userId e) \<and> users d (the (auth_userId e)) = Some u
               \<and> userId s \<noteq> user_id u \<longrightarrow>
             startInterviewWithQuestions e d i
               = (d, Rejected (Error ''Interview session not found'')))
       \<and> (\<forall>u qs. truthy_str (auth_userId e) \<and> users d (the (auth_userId e)) = Some u
               \<and> userId s = user_id u \<and> start_questions s = Inr qs \<longrightarrow>
             startInterviewWithQuestions e d i
               = (d\<lparr>sessions :=
                      (sessions d)(i \<mapsto> s\<lparr>status := IN_PROGRESS, startedAt := Some (now e)\<rparr>)\<rparr>,
                  Resolved \<lparr> st_session = s\<lparr>status := IN_PROGRESS, startedAt := Some (now e)\<rparr>,
                             st_questions = qs \<rparr>))
       \<and> (\<forall>u err. truthy_str (auth_userId e) \<and> users d (the (auth_userId e)) = Some u
               \<and> userId s = user_id u \<and> start_questions s = Inl err \<longrightarrow>
             startInterviewWithQuestions e d i
               = (d\<lparr>sessions := (sessions d)(i \<mapsto> s\<lparr>status := FAILED\<rparr>)\<rparr>, Rejected err))
       \<and> (\<forall>qs. questions s = JArr (map JStr qs) \<longrightarrow> start_questions s = Inr (map JStr qs))
       \<and> (j \<noteq> i \<longrightarrow> sessions (fst (handleInterviewComplete e d j transcript messages)) i = Some s)
       \<and> (\<exists>s'. sessions (fst (handleInterviewComplete e d i transcript messages)) i = Some s'
                \<and> status s' = COMPLETED)"
proof -
  have created: "sessions (fst (createInterviewSession e d sd)) i = Some s"
    using create_effect[of e d sd] assms by auto
  have fresh: "\<forall>c. snd (createInterviewSession e d sd) = Resolved c \<longrightarrow>
             sessions d (sid (cr_session c)) = None
             \<and> sessions (fst (createInterviewSession e d sd)) (sid (cr_session c)) = Some (cr_session c)
             \<and> status (cr_session c) = SCHEDULED"
    using create_effect[of e d sd] by auto
  have other_start: "j \<noteq> i \<longrightarrow> sessions (fst (startInterviewWithQuestions e d j)) i = Some s"
    using start_frame[of j i e d] assms by simp
  have unauthorized: "\<not> truthy_str (auth_userId e) \<longrightarrow>
      startInterviewWithQuestions e d i = (d, Rejected (Error ''Unauthorized''))"
    using start_unauthorized[of e d i] by blast
  have no_user: "truthy_str (auth_userId e) \<and> users d (the (auth_userId e)) = None \<longrightarrow>
      startInterviewWithQuestions e d i = (d, Rejected (Error ''User not found''))"
    using start_no_user[of e d i] by blast
  have not_owner: "\<forall>u. truthy_str (auth_userId e) \<and> users d (the (auth_userId e)) = Some u
               \<and> userId s \<noteq> user_id u \<longrightarrow>
             startInterviewWithQuestions e d i
               = (d, Rejected (Error ''Interview session not found''))"
    using start_not_owner[of e d _ i s] assms by blast
  have resolved: "\<forall>u qs. truthy_str (auth_userId e) \<and> users d (the (auth_userId e)) = Some u
               \<and> userId s = user_id u \<and> start_questions s = Inr qs \<longrightarrow>
             startInterviewWithQuestions e d i
               = (d\<lparr>sessions :=
                      (sessions d)(i \<mapsto> s\<lparr>status := IN_PROGRESS, startedAt := Some (now e)\<rparr>)\<rparr>,
                  Resolved \<lparr> st_session = s\<lparr>status := IN_PROGRESS, startedAt := Some (now e)\<rparr>,
                             st_questions = qs \<rparr>)"
    using start_owner_resolved[of e d _ i s] assms by blast
  have failed: "\<forall>u err. truthy_str (auth_userId e) \<and> users d (the (auth_userId e)) = Some u
               \<and> userId s = user_id u \<and> start_questions s = Inl err \<longrightarrow>
             startInterviewWithQuestions e d i
               = (d\<lparr>sessions := (sessions d)(i \<mapsto> s\<lparr>status := FAILED\<rparr>)\<rparr>, Rejected err)"
    using start_owner_failed[of e d _ i s] assms by blast
  have strings: "\<forall>qs. questions s = JArr (map JStr qs) \<longrightarrow> start_questions s = Inr (map JStr qs)"
    using start_questions_strings[of s] by blast
  have other_complete:
    "j \<noteq> i \<longrightarrow> sessions (fst (handleInterviewComplete e d j transcript messages)) i = Some s"
    using complete_frame[of j i e d transcript messages] assms by simp
  have this_complete:
    "\<exists>s'. sessions (fst (handleInterviewComplete e d i transcript messages)) i = Some s'
          \<and> status s' = COMPLETED"
    using complete_writes_one[OF assms, of e transcript messages] by auto
  show ?thesis
    using created fresh other_start unauthorized no_user not_owner resolved failed strings
      other_complete this_complete
    by (intro conjI)
qed

text \<open>
  The theorem in the store with three sessions of the first user, who is the caller. The
  COMPLETED session \<open>s1\<close>, started again by its owner, is stored as IN_PROGRESS; starting the
  SCHEDULED session \<open>s3\<close> stores it as IN_PROGRESS and leaves \<open>s1\<close> as it is; starting \<open>s4\<close>,
  whose question cannot be put into a line, stores it as FAILED and rejects. With no
  identity, with an identity without a user record, and as the second user, starting \<open>s1\<close>
  rejects and leaves the store as it is. Creating a session leaves \<open>s1\<close> as it is and the
  session created is SCHEDULED; completing \<open>s3\<close> stores it as COMPLETED and leaves \<open>s1\<close> as
  it is; completing \<open>s1\<close> again leaves it COMPLETED.
\<close>

theorem status_written_by_operations_witness:
  "sessions busy_db ''s1'' = Some finished_session
   \<and> sessions busy_db ''s3'' = Some second_session
   \<and> sessions busy_db ''s4'' = Some unreadable_session
   \<and> status finished_session = COMPLETED
   \<and> truthy_str (auth_userId sample_env)
   \<and> users busy_db (the (auth_userId sample_env)) = Some sample_user
   \<and> userId finished_session = user_id sample_user
   \<and> questions finished_session = JArr (map JStr [''Tell me about yourself and your background.''])
   \<and> startInterviewWithQuestions sample_env busy_db ''s1''
       = (busy_db\<lparr>sessions := (sessions busy_db)
             (''s1'' \<mapsto> finished_session\<lparr>status := IN_PROGRESS, startedAt := Some (now sample_env)\<rparr>)\<rparr>,
          Resolved \<lparr> st_session =
                       finished_session\<lparr>status := IN_PROGRESS, startedAt := Some (now sample_env)\<rparr>,
                     st_questions = map JStr [''Tell me about yourself and your background.''] \<rparr>)
   \<and> map_option status (sessions (fst (startInterviewWithQuestions sample_env busy_db ''s1'')) ''s1'')
       = Some IN_PROGRESS
   \<and> sessions (fst (startInterviewWithQuestions sample_env busy_db ''s3'')) ''s1''
       = Some finished_session
   \<and> map_option status (sessions (fst (startInterviewWithQuestions sample_env busy_db ''s3'')) ''s3'')
       = Some IN_PROGRESS
   \<and> start_questions unreadable_session = Inl TypeError
   \<and> startInterviewWithQuestions sample_env busy_db ''s4''
       = (busy_db\<lparr>sessions := (sessions busy_db)(''s4'' \<mapsto> unreadable_session\<lparr>status := FAILED\<rparr>)\<rparr>,
          Rejected TypeError)
   \<and> startInterviewWithQuestions (sample_env\<lparr>auth_userId := None\<rparr>) busy_db ''s1''
       = (busy_db, Rejected (Error ''Unauthorized''))
   \<and> startInterviewWithQuestions (sample_env\<lparr>auth_userId := Some ''clerk_3''\<rparr>) busy_db ''s1''
       = (busy_db, Rejected (Error ''User not found''))
   \<and> startInterviewWithQuestions (sample_env\<lparr>auth_userId := Some ''clerk_2''\<rparr>) busy_db ''s1''
       = (busy_db, Rejected (Error ''Interview session not found''))
   \<and> sessions (fst (createInterviewSession sample_env busy_db sample_data)) ''s1''
       = Some finished_session
   \<and> (\<exists>c. snd (createInterviewSession sample_env busy_db sample_data) = Resolved c
          \<and> status (cr_session c) = SCHEDULED)
   \<and> sessions (fst (handleInterviewComplete sample_env busy_db ''s3'' sample_transcript [])) ''s1''
       = Some finished_session
   \<and> (\<exists>s'. sessions (fst (handleInterviewComplete sample_env busy_db ''s3'' sample_transcript [])) ''s3''
              = Some s' \<and> status s' = COMPLETED)
   \<and> (\<exists>s'. sessions (fst (handleInterviewComplete sample_env busy_db ''s1'' sample_transcript [])) ''s1''
              = Some s' \<and> status s' = COMPLETED)"
proof -
  let ?q = "map JStr [''Tell me about yourself and your background.'']"
  have h1: "sessions busy_db ''s1'' = Some finished_session"
    and h3: "sessions busy_db ''s3'' = Some second_session"
    and h4: "sessions busy_db ''s4'' = Some unreadable_session"
    by (simp_all add: busy_db_def)
  have finished: "status finished_session = COMPLETED"
    by (simp add: finished_session_def)
  have a: "truthy_str (auth_userId sample_env)"
    and u: "users busy_db (the (auth_userId sample_env)) = Some sample_user"
    by (simp_all add: sample_env_def busy_db_def)
  have own1: "userId finished_session = user_id sample_user"
    and own3: "userId second_session = user_id sample_user"
    and own4: "userId unreadable_session = user_id sample_user"
    by (simp_all add: finished_session_def second_session_def unreadable_session_def
        sample_session_def sample_user_def)
  have q1: "questions finished_session = JArr ?q"
    and q3: "questions second_session = JArr ?q"
    by (simp_all add: finished_session_def second_session_def sample_session_def)
  have q4: "start_questions unreadable_session = Inl TypeError"
    by (simp add: start_questions_def unreadable_session_def question_text_def)
  have other: "''s3'' \<noteq> ''s1''" "''s1'' \<noteq> ''s3''"
    by simp_all
  note first = status_written_by_operations
    [OF h1, of sample_env sample_data "''s3''" sample_transcript "[]"]
  note third = status_written_by_operations
    [OF h3, of sample_env sample_data "''s1''" sample_transcript "[]"]
  note fourth = status_written_by_operations
    [OF h4, of sample_env sample_data "''s1''" sample_transcript "[]"]
  have r1: "start_questions finished_session = Inr ?q"
    using first q1 by blast
  have start1: "startInterviewWithQuestions sample_env busy_db ''s1''
       = (busy_db\<lparr>sessions := (sessions busy_db)
             (''s1'' \<mapsto> finished_session\<lparr>status := IN_PROGRESS, startedAt := Some (now sample_env)\<rparr>)\<rparr>,
          Resolved \<lparr> st_session =
                       finished_session\<lparr>status := IN_PROGRESS, startedAt := Some (now sample_env)\<rparr>,
                     st_questions = ?q \<rparr>)"
    using first a u own1 r1 by blast
  have status1:
    "map_option status (sessions (fst (startInterviewWithQuestions sample_env busy_db ''s1'')) ''s1'')
       = Some IN_PROGRESS"
    unfolding start1 by simp
  have frame3: "sessions (fst (startInterviewWithQuestions sample_env busy_db ''s3'')) ''s1''
       = Some finished_session"
    using first other by blast
  have r3: "start_questions second_session = Inr ?q"
    using third q3 by blast
  have start3: "startInterviewWithQuestions sample_env busy_db ''s3''
       = (busy_db\<lparr>sessions := (sessions busy_db)
             (''s3'' \<mapsto> second_session\<lparr>status := IN_PROGRESS, startedAt := Some (now sample_env)\<rparr>)\<rparr>,
          Resolved \<lparr> st_session =
                       second_session\<lparr>status := IN_PROGRESS, startedAt := Some (now sample_env)\<rparr>,
                     st_questions = ?q \<rparr>)"
    using third a u own3 r3 by blast
  have status3:
    "map_option status (sessions (fst (startInterviewWithQuestions sample_env busy_db ''s3'')) ''s3'')
       = Some IN_PROGRESS"
    unfolding start3 by simp
  have start4: "startInterviewWithQuestions sample_env busy_db ''s4''
       = (busy_db\<lparr>sessions := (sessions busy_db)(''s4'' \<mapsto> unreadable_session\<lparr>status := FAILED\<rparr>)\<rparr>,
          Rejected TypeError)"
    using fourth a u own4 q4 by blast
  have nobody: "\<not> truthy_str (auth_userId (sample_env\<lparr>auth_userId := None\<rparr>))"
    by simp
  have unauthorized:
    "startInterviewWithQuestions (sample_env\<lparr>auth_userId := None\<rparr>) busy_db ''s1''
       = (busy_db, Rejected (Error ''Unauthorized''))"
    using status_written_by_operations
      [OF h1, of "sample_env\<lparr>auth_userId := None\<rparr>" sample_data "''s3''" sample_transcript "[]"]
      nobody
    by blast
  have stranger: "truthy_str (auth_userId (sample_env\<lparr>auth_userId := Some ''clerk_3''\<rparr>))
      \<and> users busy_db (the (auth_userId (sample_env\<lparr>auth_userId := Some ''clerk_3''\<rparr>))) = None"
    by (simp add: busy_db_def)
  have no_user:
    "startInterviewWithQuestions (sample_env\<lparr>auth_userId := Some ''clerk_3''\<rparr>) busy_db ''s1''
       = (busy_db, Rejected (Error ''User not found''))"
    using status_written_by_operations
      [OF h1, of "sample_env\<lparr>auth_userId := Some ''clerk_3''\<rparr>" sample_data "''s3''"
        sample_transcript "[]"]
      stranger
    by blast
  have second: "truthy_str (auth_userId (sample_env\<lparr>auth_userId := Some ''clerk_2''\<rparr>))
      \<and> users busy_db (the (auth_userId (sample_env\<lparr>auth_userId := Some ''clerk_2''\<rparr>)))
          = Some other_user
      \<and> userId finished_session \<noteq> user_id other_user"
    by (simp add: busy_db_def finished_session_def sample_session_def other_user_def)
  have not_owner:
    "startInterviewWithQuestions (sample_env\<lparr>auth_userId := Some ''clerk_2''\<rparr>) busy_db ''s1''
       = (busy_db, Rejected (Error ''Interview session not found''))"
    using status_written_by_operations
      [OF h1, of "sample_env\<lparr>auth_userId := Some ''clerk_2''\<rparr>" sample_data "''s3''"
        sample_transcript "[]"]
      second
    by blast
  have kept: "sessions (fst (createInterviewSession sample_env busy_db sample_data)) ''s1''
       = Some finished_session"
    using first by blast
  have f: "sessions busy_db (fresh_id sample_env) = None"
    and t: "questions_reply sample_env = Throws
         \<or> (\<exists>reply. questions_reply sample_env = Responds reply
                \<and> JSON_parse sample_env (trim (strip_fences reply)) = None)"
    by (simp_all add: sample_env_def busy_db_def)
  have "\<exists>c. snd (createInterviewSession sample_env busy_db sample_data) = Resolved c"
    by (simp add: create_with_fallback[OF a u f t])
  then have created: "\<exists>c. snd (createInterviewSession sample_env busy_db sample_data) = Resolved c
          \<and> status (cr_session c) = SCHEDULED"
    using first by blast
  have frame_complete:
    "sessions (fst (handleInterviewComplete sample_env busy_db ''s3'' sample_transcript [])) ''s1''
       = Some finished_session"
    using first other by blast
  have complete3:
    "\<exists>s'. sessions (fst (handleInterviewComplete sample_env busy_db ''s3'' sample_transcript [])) ''s3''
              = Some s' \<and> status s' = COMPLETED"
    using third by blast
  have complete1:
    "\<exists>s'. sessions (fst (handleInterviewComplete sample_env busy_db ''s1'' sample_transcript [])) ''s1''
              = Some s' \<and> status s' = COMPLETED"
    using first by blast
  show ?thesis
    using h1 h3 h4 finished a u own1 q1 start1 status1 frame3 status3 q4 start4 unauthorized no_user
      not_owner kept created frame_complete complete3 complete1
    by (intro conjI)
qed

text \<open>
  The claim as it stands fails: started again by its owner, a COMPLETED session goes back to
  IN_PROGRESS.
\<close>

theorem completed_session_restarted_counterexample:
  "map_option status
     (sessions (sample_db\<lparr>sessions := [''s1'' \<mapsto> sample_session\<lparr>status := COMPLETED\<rparr>]\<rparr>) ''s1'')
     = Some COMPLETED
   \<and> map_option status
       (sessions (fst (startInterviewWithQuestions sample_env
          (sample_db\<lparr>sessions := [''s1'' \<mapsto> sample_session\<lparr>status := COMPLETED\<rparr>]\<rparr>) ''s1'')) ''s1'')
     = Some IN_PROGRESS"
  by (simp add: startInterviewWithQuestions_def start_body_def start_questions_def
      session_findFirst_def session_update_def sample_env_def sample_db_def sample_session_def
      sample_user_def question_text_def)

section \<open>Who may complete a session\<close>

text \<open>
  The derivation and the completion give the same result for every identity of the caller,
  and for none: the identity is not among the things they read.
\<close>

lemma identity_unread_helpers:
  "parse_feedback (e\<lparr>auth_userId := a\<rparr>) c = parse_feedback e c"
  "Math_round (e\<lparr>auth_userId := a\<rparr>) v = Math_round e v"
  "timeout_update (e\<lparr>auth_userId := a\<rparr>) = timeout_update e"
  "failed_update (e\<lparr>auth_userId := a\<rparr>) = failed_update e"
  "fatal_update (e\<lparr>auth_userId := a\<rparr>) = fatal_update e"
  "no_transcript_update (e\<lparr>auth_userId := a\<rparr>) = no_transcript_update e"
  "model_error_update (e\<lparr>auth_userId := a\<rparr>) = model_error_update e"
  "try_analytics (e\<lparr>auth_userId := a\<rparr>) = try_analytics e"
  by (simp_all add: parse_feedback_def Math_round_def ToNumber_def timeout_update_def
      failed_update_def fatal_update_def no_transcript_update_def model_error_update_def
      try_analytics_def fun_eq_iff
      cong: option.case_cong sum.case_cong promise.case_cong prod.case_cong
        model_reply.case_cong jsval.case_cong if_cong)

lemma identity_unread_rounding:
  "round_or (e\<lparr>auth_userId := a\<rparr>) v dflt = round_or e v dflt"
  by (simp add: round_or_def identity_unread_helpers)

lemma identity_unread_scores:
  "rounded_score (e\<lparr>auth_userId := a\<rparr>) cs n = rounded_score e cs n"
  by (simp add: rounded_score_def identity_unread_rounding
      cong: option.case_cong sum.case_cong promise.case_cong prod.case_cong
        model_reply.case_cong jsval.case_cong if_cong)

lemma identity_unread_updateData:
  "updateData (e\<lparr>auth_userId := a\<rparr>) c f = updateData e c f"
  by (simp add: updateData_def identity_unread_helpers identity_unread_rounding
      identity_unread_scores
      cong: option.case_cong sum.case_cong promise.case_cong prod.case_cong
        model_reply.case_cong jsval.case_cong if_cong)

lemma identity_unread_analytics:
  "transcript_analytics (e\<lparr>auth_userId := a\<rparr>) d i s t = transcript_analytics e d i s t"
  "completion_analytics (e\<lparr>auth_userId := a\<rparr>) d i s t m = completion_analytics e d i s t m"
  by (simp_all add: transcript_analytics_def completion_analytics_def identity_unread_helpers
      cong: option.case_cong sum.case_cong promise.case_cong prod.case_cong
        model_reply.case_cong jsval.case_cong if_cong)

lemma identity_unread_score_response:
  "score_response (e\<lparr>auth_userId := a\<rparr>) d i s t r = score_response e d i s t r"
  by (simp add: score_response_def identity_unread_helpers identity_unread_updateData
      cong: option.case_cong sum.case_cong promise.case_cong prod.case_cong
        model_reply.case_cong jsval.case_cong if_cong)

lemma identity_unread_body:
  "feedback_body (e\<lparr>auth_userId := a\<rparr>) d i t m = feedback_body e d i t m"
  by (simp add: feedback_body_def identity_unread_helpers identity_unread_analytics
      identity_unread_score_response
      cong: option.case_cong sum.case_cong promise.case_cong prod.case_cong
        model_reply.case_cong jsval.case_cong if_cong)

lemma derivation_ignores_identity:
  "generateFeedbackFromTranscript (e\<lparr>auth_userId := a\<rparr>) d i t m
     = generateFeedbackFromTranscript e d i t m"
  by (simp add: generateFeedbackFromTranscript_def identity_unread_helpers identity_unread_body
      cong: option.case_cong sum.case_cong promise.case_cong prod.case_cong
        model_reply.case_cong jsval.case_cong if_cong)

lemma identity_unread_race:
  "race_with_timeout (e\<lparr>auth_userId := a\<rparr>) i g = race_with_timeout e i g"
  by (simp add: race_with_timeout_def identity_unread_helpers
      cong: option.case_cong sum.case_cong promise.case_cong prod.case_cong
        model_reply.case_cong jsval.case_cong if_cong)

lemma completion_ignores_identity:
  "handleInterviewComplete (e\<lparr>auth_userId := a\<rparr>) d i t m = handleInterviewComplete e d i t m"
  by (simp add: handleInterviewComplete_def complete_body_def identity_unread_helpers
      identity_unread_analytics derivation_ignores_identity identity_unread_race
      cong: option.case_cong sum.case_cong promise.case_cong prod.case_cong
        model_reply.case_cong jsval.case_cong if_cong)


text \<open>
  Claim C3 does not hold of the code. \<^verbatim>\<open>handleInterviewComplete\<close> never asks the identity
  provider: with no identity at all it resolves and writes the session of user \<open>u1\<close>, where
  \<^verbatim>\<open>startInterviewWithQuestions\<close> rejects with ``Unauthorized'' and writes nothing.
\<close>

theorem completion_without_identity:
  "auth_userId (sample_env\<lparr>auth_userId := None\<rparr>) = None
   \<and> map_option userId (sessions sample_db ''s1'') = Some ''u1''
   \<and> map_option status (sessions sample_db ''s1'') = Some IN_PROGRESS
   \<and> startInterviewWithQuestions (sample_env\<lparr>auth_userId := None\<rparr>) sample_db ''s1''
        = (sample_db, Rejected (Error ''Unauthorized''))
   \<and> snd (handleInterviewComplete (sample_env\<lparr>auth_userId := None\<rparr>) sample_db ''s1''
            sample_transcript [])
        = Resolved \<lparr> co_session = Some (model_error_update sample_env sample_session),
                     co_feedback = Some model_error_feedback \<rparr>
   \<and> map_option status
        (sessions (fst (handleInterviewComplete (sample_env\<lparr>auth_userId := None\<rparr>) sample_db ''s1''
            sample_transcript [])) ''s1'')
        = Some COMPLETED"
proof -
  let ?e = "sample_env\<lparr>auth_userId := None\<rparr>"
  have h1: "sessions sample_db ''s1'' = Some sample_session"
    by (simp add: sample_db_def)
  have long: "10 \<le> length (trim (format_transcript sample_transcript []))"
    by code_simp
  have throws: "feedback_reply ?e = Throws"
    by (simp add: sample_env_def)
  have derived: "snd (generateFeedbackFromTranscript ?e sample_db ''s1'' sample_transcript [])
          = Resolved (Some model_error_feedback)"
    by (simp add: derivation_result body_throws(1)[OF h1 long throws])
  have written: "sessions (fst (generateFeedbackFromTranscript ?e sample_db ''s1'' sample_transcript [])) ''s1''
          = Some (model_error_update sample_env sample_session)"
    by (simp add: derivation_sessions body_throws[OF h1 long throws] model_error_update_def)
  have "startInterviewWithQuestions ?e sample_db ''s1'' = (sample_db, Rejected (Error ''Unauthorized''))"
    by (simp add: startInterviewWithQuestions_def)
  moreover have "status (model_error_update sample_env sample_session) = COMPLETED"
    by (simp add: model_error_update_def)
  moreover have "map_option userId (sessions sample_db ''s1'') = Some ''u1''"
    and "map_option status (sessions sample_db ''s1'') = Some IN_PROGRESS"
    by (simp_all add: sample_db_def sample_session_def)
  ultimately show ?thesis
    using complete_resolved[OF h1 derived] written by simp
qed

section \<open>The questions of a new session\<close>

lemma fallback_free_of:
  assumes "CHR ''/'' \<notin> set r" and "CHR ''*'' \<notin> set r"
  shows "\<forall>q \<in> set (fallback_questions r). CHR ''/'' \<notin> set q \<and> CHR ''*'' \<notin> set q"
  using assms by (simp add: fallback_questions_def)

text \<open>
  Claim C8, as amended. For an authenticated caller with a user record: when the
  text-generation service throws, or returns a text that \<^verbatim>\<open>JSON.parse\<close> rejects, the session
  created stores the fixed list of 8 questions, the role put into the second. When the text
  parses, what is stored is the parsed value if it is an array and the empty list if it is
  not.
\<close>

theorem fallback_questions_stored:
  assumes "truthy_str (auth_userId e)"
    and "users d (the (auth_userId e)) = Some u"
    and "sessions d (fresh_id e) = None"
  shows "(questions_reply e = Throws
          \<or> (\<exists>reply. questions_reply e = Responds reply
                 \<and> JSON_parse e (trim (strip_fences reply)) = None)
          \<longrightarrow> (\<exists>c. snd (createInterviewSession e d sd) = Resolved c
                 \<and> sessions (fst (createInterviewSession e d sd)) (sid (cr_session c))
                      = Some (cr_session c)
                 \<and> status (cr_session c) = SCHEDULED
                 \<and> questions (cr_session c) = JArr (map JStr (fallback_questions (sd_role sd)))))
       \<and> length (fallback_questions (sd_role sd)) = 8
       \<and> fallback_questions (sd_role sd) ! 1
            = ''What interests you most about working as a '' @ sd_role sd @ ''?''
       \<and> (\<forall>reply v. questions_reply e = Responds reply
                 \<and> JSON_parse e (trim (strip_fences reply)) = Some v
          \<longrightarrow> (\<exists>c. snd (createInterviewSession e d sd) = Resolved c
                 \<and> sessions (fst (createInterviewSession e d sd)) (sid (cr_session c))
                      = Some (cr_session c)
                 \<and> questions (cr_session c) = (if is_array v then v else JArr [])))"
proof -
  have "length (fallback_questions (sd_role sd)) = 8"
    and "fallback_questions (sd_role sd) ! 1
           = ''What interests you most about working as a '' @ sd_role sd @ ''?''"
    by (simp_all add: fallback_questions_def)
  moreover have "\<exists>c. snd (createInterviewSession e d sd) = Resolved c
                 \<and> sessions (fst (createInterviewSession e d sd)) (sid (cr_session c))
                      = Some (cr_session c)
                 \<and> status (cr_session c) = SCHEDULED
                 \<and> questions (cr_session c) = JArr (map JStr (fallback_questions (sd_role sd)))"
    if "questions_reply e = Throws
          \<or> (\<exists>reply. questions_reply e = Responds reply
                 \<and> JSON_parse e (trim (strip_fences reply)) = None)"
    by (simp add: create_with_fallback[OF assms that] new_session_def)
  moreover have "\<exists>c. snd (createInterviewSession e d sd) = Resolved c
                 \<and> sessions (fst (createInterviewSession e d sd)) (sid (cr_session c))
                      = Some (cr_session c)
                 \<and> questions (cr_session c) = (if is_array v then v else JArr [])"
    if "questions_reply e = Responds reply \<and> JSON_parse e (trim (strip_fences reply)) = Some v"
    for reply v
    using create_with_parsed[OF assms, of reply v sd] that
    by (simp add: new_session_def)
  ultimately show ?thesis
    by blast
qed

text \<open>
  The theorem for the sample user: with a service that throws the fixed list is stored, and
  with a reply that is an array of one question that array is stored.
\<close>

theorem fallback_questions_stored_witness:
  "truthy_str (auth_userId sample_env)
   \<and> users sample_db (the (auth_userId sample_env)) = Some sample_user
   \<and> sessions sample_db (fresh_id sample_env) = None
   \<and> questions_reply sample_env = Throws
   \<and> (\<exists>c. snd (createInterviewSession sample_env sample_db sample_data) = Resolved c
         \<and> sessions (fst (createInterviewSession sample_env sample_db sample_data)) (sid (cr_session c))
              = Some (cr_session c)
         \<and> questions (cr_session c) = JArr (map JStr (fallback_questions (sd_role sample_data))))
   \<and> length (fallback_questions (sd_role sample_data)) = 8
   \<and> JSON_parse (sample_env\<lparr>questions_reply := Responds ''[\"What is a/b testing?\"]''\<rparr>)
        (trim (strip_fences ''[\"What is a/b testing?\"]''))
        = Some (JArr [JStr ''What is a/b testing?''])
   \<and> (\<exists>c. snd (createInterviewSession
                (sample_env\<lparr>questions_reply := Responds ''[\"What is a/b testing?\"]''\<rparr>)
                sample_db sample_data) = Resolved c
         \<and> questions (cr_session c) = JArr [JStr ''What is a/b testing?''])"
proof -
  let ?e = "sample_env\<lparr>questions_reply := Responds ''[\"What is a/b testing?\"]''\<rparr>"
  have h1: "truthy_str (auth_userId sample_env)"
    by (simp add: sample_env_def)
  have h2: "users sample_db (the (auth_userId sample_env)) = Some sample_user"
    by (simp add: sample_env_def sample_db_def)
  have h3: "sessions sample_db (fresh_id sample_env) = None"
    by (simp add: sample_env_def sample_db_def)
  have h4: "questions_reply sample_env = Throws"
    by (simp add: sample_env_def)
  have g1: "truthy_str (auth_userId ?e)"
    by (simp add: sample_env_def)
  have g2: "users sample_db (the (auth_userId ?e)) = Some sample_user"
    by (simp add: sample_env_def sample_db_def)
  have g3: "sessions sample_db (fresh_id ?e) = None"
    by (simp add: sample_env_def sample_db_def)
  have g4: "questions_reply ?e = Responds ''[\"What is a/b testing?\"]''"
    by simp
  have clean: "trim (strip_fences ''[\"What is a/b testing?\"]'') = ''[\"What is a/b testing?\"]''"
    by code_simp
  have g5: "JSON_parse ?e (trim (strip_fences ''[\"What is a/b testing?\"]''))
              = Some (JArr [JStr ''What is a/b testing?''])"
    unfolding clean
    by (simp add: sample_env_def JSON_parse_sample_def sample_replies)
  have thrown: "\<exists>c. snd (createInterviewSession sample_env sample_db sample_data) = Resolved c
         \<and> sessions (fst (createInterviewSession sample_env sample_db sample_data)) (sid (cr_session c))
              = Some (cr_session c)
         \<and> questions (cr_session c) = JArr (map JStr (fallback_questions (sd_role sample_data)))"
    using h4 fallback_questions_stored [OF h1 h2 h3, of sample_data] by blast
  have eight: "length (fallback_questions (sd_role sample_data)) = 8"
    using fallback_questions_stored [OF h1 h2 h3, of sample_data] by blast
  have "\<exists>c. snd (createInterviewSession ?e sample_db sample_data) = Resolved c
         \<and> questions (cr_session c)
              = (if is_array (JArr [JStr ''What is a/b testing?''])
                 then JArr [JStr ''What is a/b testing?''] else JArr [])"
    using g4 g5 fallback_questions_stored [OF g1 g2 g3, of sample_data] by blast
  then have parsed: "\<exists>c. snd (createInterviewSession ?e sample_db sample_data) = Resolved c
         \<and> questions (cr_session c) = JArr [JStr ''What is a/b testing?'']"
    by simp
  show ?thesis
    using h1 h2 h3 h4 thrown eight g5 parsed by (intro conjI)
qed

text \<open>
  The claim as it stands fails: the reply \<^verbatim>\<open>{}\<close> parses, is not an array, and the session is
  created with no question at all.
\<close>

theorem object_reply_counterexample:
  "JSON_parse (sample_env\<lparr>questions_reply := Responds ''{}''\<rparr>) (trim (strip_fences ''{}''))
     = Some (JObj [])
   \<and> map_option questions
        (sessions (fst (createInterviewSession (sample_env\<lparr>questions_reply := Responds ''{}''\<rparr>)
           sample_db sample_data)) ''s2'')
     = Some (JArr [])
   \<and> length (fallback_questions (sd_role sample_data)) = 8"
proof -
  let ?e = "sample_env\<lparr>questions_reply := Responds ''{}''\<rparr>"
  have h1: "truthy_str (auth_userId ?e)"
    by (simp add: sample_env_def)
  have h2: "users sample_db (the (auth_userId ?e)) = Some sample_user"
    by (simp add: sample_env_def sample_db_def)
  have h3: "sessions sample_db (fresh_id ?e) = None"
    by (simp add: sample_env_def sample_db_def)
  have h4: "questions_reply ?e = Responds ''{}''"
    by simp
  have clean: "trim (strip_fences ''{}'') = ''{}''"
    by code_simp
  have h5: "JSON_parse ?e (trim (strip_fences ''{}'')) = Some (JObj [])"
    unfolding clean
    by (simp add: sample_env_def JSON_parse_sample_def sample_replies)
  have "fresh_id ?e = ''s2''"
    by (simp add: sample_env_def)
  then have "map_option questions
        (sessions (fst (createInterviewSession ?e sample_db sample_data)) ''s2'') = Some (JArr [])"
    by (simp add: create_with_parsed[OF h1 h2 h3 h4 h5] new_session_def)
  then show ?thesis
    using h5 by (simp add: fallback_questions_def)
qed

text \<open>
  Claim C9, as amended. Nothing in the code removes a character from a question or checks
  that there is one: the two characters are only forbidden in the prompt. What holds is
  this: when the service throws or returns a text that \<^verbatim>\<open>JSON.parse\<close> rejects, the list stored
  is the fixed one, which is not empty, and whose questions contain neither \<^verbatim>\<open>/\<close> nor \<^verbatim>\<open>*\<close>
  provided the role contains neither.
\<close>

theorem fallback_questions_speakable:
  assumes "truthy_str (auth_userId e)"
    and "users d (the (auth_userId e)) = Some u"
    and "sessions d (fresh_id e) = None"
    and "questions_reply e = Throws
         \<or> (\<exists>reply. questions_reply e = Responds reply
                \<and> JSON_parse e (trim (strip_fences reply)) = None)"
    and "CHR ''/'' \<notin> set (sd_role sd)"
    and "CHR ''*'' \<notin> set (sd_role sd)"
  shows "\<exists>c qs. snd (createInterviewSession e d sd) = Resolved c
           \<and> sessions (fst (createInterviewSession e d sd)) (sid (cr_session c)) = Some (cr_session c)
           \<and> questions (cr_session c) = JArr (map JStr qs)
           \<and> qs \<noteq> []
           \<and> (\<forall>q \<in> set qs. CHR ''/'' \<notin> set q \<and> CHR ''*'' \<notin> set q)"
proof -
  have "fallback_questions (sd_role sd) \<noteq> []"
    by (simp add: fallback_questions_def)
  then show ?thesis
    using fallback_free_of[OF assms(5,6)]
    by (simp add: create_with_fallback[OF assms(1-4)] new_session_def) blast
qed

text \<open>The theorem for the sample user, the role ``Backend Engineer'' and a service that throws.\<close>

theorem fallback_questions_speakable_witness:
  "truthy_str (auth_userId sample_env)
   \<and> users sample_db (the (auth_userId sample_env)) = Some sample_user
   \<and> sessions sample_db (fresh_id sample_env) = None
   \<and> questions_reply sample_env = Throws
   \<and> CHR ''/'' \<notin> set (sd_role sample_data)
   \<and> CHR ''*'' \<notin> set (sd_role sample_data)
   \<and> (\<exists>c qs. snd (createInterviewSession sample_env sample_db sample_data) = Resolved c
         \<and> questions (cr_session c) = JArr (map JStr qs)
         \<and> qs \<noteq> []
         \<and> list_all (\<lambda>q. CHR ''/'' \<notin> set q \<and> CHR ''*'' \<notin> set q) qs)"
proof -
  have h1: "truthy_str (auth_userId sample_env)"
    by (simp add: sample_env_def)
  have h2: "users sample_db (the (auth_userId sample_env)) = Some sample_user"
    by (simp add: sample_env_def sample_db_def)
  have h3: "sessions sample_db (fresh_id sample_env) = None"
    by (simp add: sample_env_def sample_db_def)
  have h4: "questions_reply sample_env = Throws"
    by (simp add: sample_env_def)
  have h4': "questions_reply sample_env = Throws
         \<or> (\<exists>reply. questions_reply sample_env = Responds reply
                \<and> JSON_parse sample_env (trim (strip_fences reply)) = None)"
    using h4 by simp
  have h5: "CHR ''/'' \<notin> set (sd_role sample_data)"
    by (simp add: sample_data_def)
  have h6: "CHR ''*'' \<notin> set (sd_role sample_data)"
    by (simp add: sample_data_def)
  show ?thesis
    using h1 h2 h3 h4 h5 h6 fallback_questions_speakable [OF h1 h2 h3 h4' h5 h6]
    unfolding list_all_iff by blast
qed

text \<open>
  The claim as it stands fails three ways: the reply \<^verbatim>\<open>[]\<close> is stored as an empty list; a
  question with a slash in the reply is stored as it is; and for the role ``UI/UX Designer''
  even the fixed list has a slash in its second question.
\<close>

theorem unspeakable_questions_counterexample:
  "map_option questions
     (sessions (fst (createInterviewSession (sample_env\<lparr>questions_reply := Responds ''[]''\<rparr>)
        sample_db sample_data)) ''s2'')
     = Some (JArr [])
   \<and> map_option questions
     (sessions (fst (createInterviewSession
        (sample_env\<lparr>questions_reply := Responds ''[\"What is a/b testing?\"]''\<rparr>)
        sample_db sample_data)) ''s2'')
     = Some (JArr [JStr ''What is a/b testing?''])
   \<and> CHR ''/'' \<in> set ''What is a/b testing?''
   \<and> sd_role (sample_data\<lparr>sd_role := ''UI/UX Designer''\<rparr>) \<noteq> []
   \<and> map_option questions
     (sessions (fst (createInterviewSession sample_env sample_db
        (sample_data\<lparr>sd_role := ''UI/UX Designer''\<rparr>))) ''s2'')
     = Some (JArr (map JStr (fallback_questions ''UI/UX Designer'')))
   \<and> fallback_questions ''UI/UX Designer'' ! 1
     = ''What interests you most about working as a UI/UX Designer?''
   \<and> CHR ''/'' \<in> set (fallback_questions ''UI/UX Designer'' ! 1)"
proof -
  let ?e1 = "sample_env\<lparr>questions_reply := Responds ''[]''\<rparr>"
  let ?e2 = "sample_env\<lparr>questions_reply := Responds ''[\"What is a/b testing?\"]''\<rparr>"
  have auth: "truthy_str (auth_userId (sample_env\<lparr>questions_reply := q\<rparr>))"
    and user: "users sample_db (the (auth_userId (sample_env\<lparr>questions_reply := q\<rparr>))) = Some sample_user"
    and fresh: "sessions sample_db (fresh_id (sample_env\<lparr>questions_reply := q\<rparr>)) = None"
    and new: "fresh_id (sample_env\<lparr>questions_reply := q\<rparr>) = ''s2''" for q
    by (simp_all add: sample_env_def sample_db_def)
  have clean1: "trim (strip_fences ''[]'') = ''[]''"
    by code_simp
  have parsed1: "JSON_parse ?e1 (trim (strip_fences ''[]'')) = Some (JArr [])"
    unfolding clean1
    by (simp add: sample_env_def JSON_parse_sample_def sample_replies)
  have first: "map_option questions
     (sessions (fst (createInterviewSession ?e1 sample_db sample_data)) ''s2'') = Some (JArr [])"
    using new[of "Responds ''[]''"]
    by (simp add: create_with_parsed[OF auth user fresh _ parsed1] new_session_def)
  have clean2: "trim (strip_fences ''[\"What is a/b testing?\"]'') = ''[\"What is a/b testing?\"]''"
    by code_simp
  have parsed2: "JSON_parse ?e2 (trim (strip_fences ''[\"What is a/b testing?\"]''))
                   = Some (JArr [JStr ''What is a/b testing?''])"
    unfolding clean2
    by (simp add: sample_env_def JSON_parse_sample_def sample_replies)
  have second: "map_option questions
     (sessions (fst (createInterviewSession ?e2 sample_db sample_data)) ''s2'')
     = Some (JArr [JStr ''What is a/b testing?''])"
    using new[of "Responds ''[\"What is a/b testing?\"]''"]
    by (simp add: create_with_parsed[OF auth user fresh _ parsed2] new_session_def)
  have a0: "truthy_str (auth_userId sample_env)"
    and u0: "users sample_db (the (auth_userId sample_env)) = Some sample_user"
    and f0: "sessions sample_db (fresh_id sample_env) = None"
    and t0: "questions_reply sample_env = Throws
         \<or> (\<exists>reply. questions_reply sample_env = Responds reply
                \<and> JSON_parse sample_env (trim (strip_fences reply)) = None)"
    and n0: "fresh_id sample_env = ''s2''"
    by (simp_all add: sample_env_def sample_db_def)
  have third: "map_option questions
     (sessions (fst (createInterviewSession sample_env sample_db
        (sample_data\<lparr>sd_role := ''UI/UX Designer''\<rparr>))) ''s2'')
     = Some (JArr (map JStr (fallback_questions ''UI/UX Designer'')))"
    using n0 by (simp add: create_with_fallback[OF a0 u0 f0 t0] new_session_def)
  have slash: "fallback_questions ''UI/UX Designer'' ! 1
     = ''What interests you most about working as a UI/UX Designer?''"
    by (simp add: fallback_questions_def)
  have c3: "CHR ''/'' \<in> set ''What is a/b testing?''"
    by simp
  have c4: "sd_role (sample_data\<lparr>sd_role := ''UI/UX Designer''\<rparr>) \<noteq> []"
    by simp
  have c7: "CHR ''/'' \<in> set (fallback_questions ''UI/UX Designer'' ! 1)"
    unfolding slash by simp
  show ?thesis
    using first second c3 c4 third slash c7 by (intro conjI)
qed

section \<open>Scoring a reply\<close>

lemma Math_round_int: "Math_round e (JNum (of_int n)) = Inr (Some n)"
proof -
  have "\<lfloor>(of_int n :: rat) + 1 / 2\<rfloor> = n"
    by linarith
  then show ?thesis
    by (simp add: Math_round_def ToNumber_def)
qed

lemma round_or_zero: "round_or e (JNum 0) dflt = Inr dflt"
  using Math_round_int[of e 0] by (simp add: round_or_def or_int_def)

lemma round_or_numeral: "round_or e (JNum (numeral k)) dflt = Inr (numeral k)"
  using Math_round_int[of e "numeral k"] by (simp add: round_or_def or_int_def)



lemma rounded_score_zero:
  assumes "category_score cs n = Inr (JNum 0)"
  shows "rounded_score e cs n = Inr 50"
  using assms by (simp add: rounded_score_def round_or_zero)

lemma rounded_score_numeral:
  assumes "category_score cs n = Inr (JNum (numeral k))"
  shows "rounded_score e cs n = Inr (numeral k)"
  using assms by (simp add: rounded_score_def round_or_numeral)

lemma five_categories_scores:
  "category_score (five_categories v c) ''Technical Knowledge'' = Inr v"
  "category_score (five_categories v c) ''Communication Skills'' = Inr v"
  "category_score (five_categories v c) ''Confidence and Clarity'' = Inr v"
  by (simp_all add: category_score_def five_categories_def category_def)


text \<open>The write made from a document, when the four roundings do not throw, and conversely.\<close>

lemma updateData_scores:
  assumes "round_or e (totalScore feedback) 75 = Inr overall"
    and "rounded_score e (categoryScores feedback) ''Technical Knowledge'' = Inr technical"
    and "rounded_score e (categoryScores feedback) ''Communication Skills'' = Inr communication"
    and "rounded_score e (categoryScores feedback) ''Confidence and Clarity'' = Inr confidence"
  shows "\<exists>upd. updateData e cleanedText feedback = Inr upd
           \<and> (\<forall>r. overallScore (upd r) = Some overall
                 \<and> technicalScore (upd r) = Some technical
                 \<and> communicationScore (upd r) = Some communication
                 \<and> confidenceScore (upd r) = Some confidence
                 \<and> status (upd r) = COMPLETED)"
  using assms by (simp add: updateData_def)



lemma derivation_written:
  assumes "sessions d sessionId = Some s"
    and "10 \<le> length (trim (format_transcript transcript messages))"
    and "feedback_reply e = Responds reply"
    and "ensure_structure (parse_feedback e (clean_response reply)) = Inr feedback"
    and "updateData e (clean_response reply) feedback = Inr upd"
  shows "snd (generateFeedbackFromTranscript e d sessionId transcript messages)
           = Resolved (Some feedback)"
    and "sessions (fst (generateFeedbackFromTranscript e d sessionId transcript messages)) sessionId
           = Some (upd s)"
  using body_responds[OF assms(1-3)] assms(1,4,5)
  by (simp_all add: derivation_result derivation_sessions)

lemma derivation_scored:
  assumes "sessions d sessionId = Some s"
    and "10 \<le> length (trim (format_transcript transcript messages))"
    and "feedback_reply e = Responds reply"
    and "ensure_structure (parse_feedback e (clean_response reply)) = Inr feedback"
    and "round_or e (totalScore feedback) 75 = Inr overall"
    and "rounded_score e (categoryScores feedback) ''Technical Knowledge'' = Inr technical"
    and "rounded_score e (categoryScores feedback) ''Communication Skills'' = Inr communication"
    and "rounded_score e (categoryScores feedback) ''Confidence and Clarity'' = Inr confidence"
  shows "snd (generateFeedbackFromTranscript e d sessionId transcript messages)
           = Resolved (Some feedback)
       \<and> (\<exists>s'. sessions (fst (generateFeedbackFromTranscript e d sessionId transcript messages)) sessionId
                  = Some s'
              \<and> overallScore s' = Some overall
              \<and> technicalScore s' = Some technical
              \<and> communicationScore s' = Some communication
              \<and> confidenceScore s' = Some confidence
              \<and> status s' = COMPLETED)"
proof -
  obtain upd where upd: "updateData e (clean_response reply) feedback = Inr upd"
    and fields: "\<forall>r. overallScore (upd r) = Some overall
                 \<and> technicalScore (upd r) = Some technical
                 \<and> communicationScore (upd r) = Some communication
                 \<and> confidenceScore (upd r) = Some confidence
                 \<and> status (upd r) = COMPLETED"
    using updateData_scores[OF assms(5-8), of "clean_response reply"] by blast
  from derivation_written[OF assms(1-4) upd] fields show ?thesis
    by simp
qed




text \<open>What the repair of an unparseable reply produces, after the structure has been ensured.\<close>

lemma parse_failure_document:
  assumes "JSON_parse e cleanedText = None"
  shows "ensure_structure (parse_feedback e cleanedText) =
           Inr \<lparr> totalScore =
                   (case total_guess cleanedText of
                      None \<Rightarrow> JNum 75
                    | Some n \<Rightarrow> if min 100 n = 0 then JNum 75 else JNum (of_nat (min 100 n))),
                 categoryScores = five_categories (JNum 75) ''Auto-generated fallback'',
                 fb_strengths = [],
                 areasForImprovement = [JStr ''Could not parse model JSON; using fallback values''],
                 finalAssessment = JStr (take 1000 cleanedText) \<rparr>"
  using assms
  by (auto simp add: parse_feedback_def parse_fallback_def ensure_structure_def Let_def
      five_categories_def category_def array_or_empty_def substring_def min_def
      split: option.splits)

text \<open>
  Claim C6 does not hold of the code at a recovered total of 0. The reply below is prose, so
  the parse fails and the pattern \<^verbatim>\<open>NN/100\<close> recovers 0, which the clamp to 0..100 keeps. The
  line \<^verbatim>\<open>if (!feedback.totalScore) feedback.totalScore = 75\<close> that follows takes the 0 for a
  missing value: the document returned and the session written carry 75. The rest of the
  document is as the claim says.
\<close>

theorem recovered_zero_total_replaced:
  "JSON_parse (sample_env\<lparr>feedback_reply := Responds ''Overall: 0/100. Poor.''\<rparr>)
      (clean_response ''Overall: 0/100. Poor.'') = None
   \<and> total_guess (clean_response ''Overall: 0/100. Poor.'') = Some 0
   \<and> snd (generateFeedbackFromTranscript
            (sample_env\<lparr>feedback_reply := Responds ''Overall: 0/100. Poor.''\<rparr>)
            sample_db ''s1'' sample_transcript [])
       = Resolved (Some
           \<lparr> totalScore = JNum 75,
             categoryScores = five_categories (JNum 75) ''Auto-generated fallback'',
             fb_strengths = [],
             areasForImprovement = [JStr ''Could not parse model JSON; using fallback values''],
             finalAssessment = JStr ''Overall: 0/100. Poor.'' \<rparr>)
   \<and> map_option overallScore
        (sessions (fst (generateFeedbackFromTranscript
            (sample_env\<lparr>feedback_reply := Responds ''Overall: 0/100. Poor.''\<rparr>)
            sample_db ''s1'' sample_transcript [])) ''s1'')
       = Some (Some 75)"
proof -
  let ?e = "sample_env\<lparr>feedback_reply := Responds ''Overall: 0/100. Poor.''\<rparr>"
  let ?doc = "\<lparr> totalScore = JNum 75,
             categoryScores = five_categories (JNum 75) ''Auto-generated fallback'',
             fb_strengths = [],
             areasForImprovement = [JStr ''Could not parse model JSON; using fallback values''],
             finalAssessment = JStr ''Overall: 0/100. Poor.'' \<rparr>"
  have h1: "sessions sample_db ''s1'' = Some sample_session"
    by (simp add: sample_db_def)
  have long: "10 \<le> length (trim (format_transcript sample_transcript []))"
    by code_simp
  have reply: "feedback_reply ?e = Responds ''Overall: 0/100. Poor.''"
    by simp
  have clean: "clean_response ''Overall: 0/100. Poor.'' = ''Overall: 0/100. Poor.''"
    by code_simp
  have guess: "total_guess ''Overall: 0/100. Poor.'' = Some 0"
    by code_simp
  have unparsed: "JSON_parse ?e ''Overall: 0/100. Poor.'' = None"
    by (simp add: sample_env_def JSON_parse_sample_def sample_replies)
  have doc: "ensure_structure (parse_feedback ?e (clean_response ''Overall: 0/100. Poor.'')) = Inr ?doc"
    unfolding clean by (simp add: parse_failure_document[OF unparsed] guess)
  have total: "round_or ?e (totalScore ?doc) 75 = Inr 75"
    by (simp add: round_or_numeral)
  have scores:
    "rounded_score ?e (categoryScores ?doc) ''Technical Knowledge'' = Inr 75"
    "rounded_score ?e (categoryScores ?doc) ''Communication Skills'' = Inr 75"
    "rounded_score ?e (categoryScores ?doc) ''Confidence and Clarity'' = Inr 75"
    by (simp_all add: five_categories_scores rounded_score_numeral)
  have "map_option overallScore
        (sessions (fst (generateFeedbackFromTranscript ?e sample_db ''s1'' sample_transcript [])) ''s1'')
       = Some (Some 75)"
    using derivation_scored[OF h1 long reply doc total scores] by auto
  moreover have "snd (generateFeedbackFromTranscript ?e sample_db ''s1'' sample_transcript [])
       = Resolved (Some ?doc)"
    using derivation_scored[OF h1 long reply doc total scores] by blast
  ultimately show ?thesis
    using unparsed guess unfolding clean by (intro conjI)
qed

text \<open>
  Claim C7 does not hold of the code when the score for Technical Knowledge is 0. The reply
  is a document in the requested shape with total 85 and five named categories, Technical
  Knowledge scored 0. The total is written as 85, but \<^verbatim>\<open>Math.round(...) || 50\<close> takes the 0 for
  a missing score and writes 50.
\<close>

theorem zero_technical_score_replaced:
  "JSON_parse (sample_env\<lparr>feedback_reply := Responds zero_technical_reply\<rparr>)
      (clean_response zero_technical_reply) = Some zero_technical_doc
   \<and> get_prop zero_technical_doc ''totalScore'' = Inr (JNum 85)
   \<and> get_prop zero_technical_doc ''categoryScores'' = Inr (JArr zero_technical_categories)
   \<and> length zero_technical_categories = 5
   \<and> category_score zero_technical_categories ''Technical Knowledge'' = Inr (JNum 0)
   \<and> snd (generateFeedbackFromTranscript
            (sample_env\<lparr>feedback_reply := Responds zero_technical_reply\<rparr>)
            sample_db ''s1'' sample_transcript [])
       = Resolved (Some
           \<lparr> totalScore = JNum 85,
             categoryScores = zero_technical_categories,
             fb_strengths = [],
             areasForImprovement = [],
             finalAssessment = JStr ''Weak on technical depth.'' \<rparr>)
   \<and> map_option overallScore
        (sessions (fst (generateFeedbackFromTranscript
            (sample_env\<lparr>feedback_reply := Responds zero_technical_reply\<rparr>)
            sample_db ''s1'' sample_transcript [])) ''s1'')
       = Some (Some 85)
   \<and> map_option technicalScore
        (sessions (fst (generateFeedbackFromTranscript
            (sample_env\<lparr>feedback_reply := Responds zero_technical_reply\<rparr>)
            sample_db ''s1'' sample_transcript [])) ''s1'')
       = Some (Some 50)"
proof -
  let ?e = "sample_env\<lparr>feedback_reply := Responds zero_technical_reply\<rparr>"
  let ?doc = "\<lparr> totalScore = JNum 85,
             categoryScores = zero_technical_categories,
             fb_strengths = [],
             areasForImprovement = [],
             finalAssessment = JStr ''Weak on technical depth.'' \<rparr>"
  have h1: "sessions sample_db ''s1'' = Some sample_session"
    by (simp add: sample_db_def)
  have long: "10 \<le> length (trim (format_transcript sample_transcript []))"
    by code_simp
  have reply: "feedback_reply ?e = Responds zero_technical_reply"
    by simp
  have clean: "clean_response zero_technical_reply = zero_technical_reply"
    by code_simp
  have parsed: "JSON_parse ?e zero_technical_reply = Some zero_technical_doc"
    by (simp add: sample_env_def JSON_parse_sample_def)
  have fields: "get_prop zero_technical_doc ''totalScore'' = Inr (JNum 85)"
    "get_prop zero_technical_doc ''categoryScores'' = Inr (JArr zero_technical_categories)"
    by (simp_all add: zero_technical_doc_def)
  have five: "length zero_technical_categories = 5"
    by (simp add: zero_technical_categories_def)
  have "parse_feedback ?e zero_technical_reply = zero_technical_doc"
    unfolding parse_feedback_def parsed by simp
  moreover have "ensure_structure zero_technical_doc = Inr ?doc"
    by (simp add: ensure_structure_def Let_def array_or_empty_def zero_technical_doc_def
        zero_technical_categories_def)
  ultimately have doc:
    "ensure_structure (parse_feedback ?e (clean_response zero_technical_reply)) = Inr ?doc"
    unfolding clean by simp
  have scores:
    "category_score (categoryScores ?doc) ''Technical Knowledge'' = Inr (JNum 0)"
    "category_score (categoryScores ?doc) ''Communication Skills'' = Inr (JNum 80)"
    "category_score (categoryScores ?doc) ''Confidence and Clarity'' = Inr (JNum 75)"
    by (simp_all add: category_score_def zero_technical_categories_def)
  have technical: "category_score zero_technical_categories ''Technical Knowledge'' = Inr (JNum 0)"
    using scores(1) by simp
  have total: "round_or ?e (totalScore ?doc) 75 = Inr 85"
    by (simp add: round_or_numeral)
  have rounded:
    "rounded_score ?e (categoryScores ?doc) ''Technical Knowledge'' = Inr 50"
    "rounded_score ?e (categoryScores ?doc) ''Communication Skills'' = Inr 80"
    "rounded_score ?e (categoryScores ?doc) ''Confidence and Clarity'' = Inr 75"
    using scores by (simp_all add: rounded_score_zero rounded_score_numeral)
  have written:
    "map_option overallScore
        (sessions (fst (generateFeedbackFromTranscript ?e sample_db ''s1'' sample_transcript [])) ''s1'')
       = Some (Some 85)"
    "map_option technicalScore
        (sessions (fst (generateFeedbackFromTranscript ?e sample_db ''s1'' sample_transcript [])) ''s1'')
       = Some (Some 50)"
    using derivation_scored[OF h1 long reply doc total rounded] by auto
  have returned: "snd (generateFeedbackFromTranscript ?e sample_db ''s1'' sample_transcript [])
       = Resolved (Some ?doc)"
    using derivation_scored[OF h1 long reply doc total rounded] by blast
  show ?thesis
    using parsed fields five technical returned written unfolding clean by (intro conjI)
qed

section \<open>Zero scores\<close>
















end
